theory Spec2Isabelle
  imports Main "HOL-Library.Word" "HOL-Library.Sublist"
begin

section \<open>Host values\<close>

text \<open>
  The values the host runtime hands to the binding. Only what
  \<^verbatim>\<open>inference_session_wrap.cc\<close> observes of them is kept: their kind
  (\<^verbatim>\<open>IsString\<close>, \<^verbatim>\<open>IsObject\<close>, \<^verbatim>\<open>IsArrayBuffer\<close>, \<^verbatim>\<open>IsNumber\<close>, \<^verbatim>\<open>IsNull\<close>),
  of a number the result of \<^verbatim>\<open>Int64Value()\<close>, the bytes of an array buffer, and of
  every object (a record, a function, an array, an array buffer) its own properties, in
  the order the host iterates them, and its prototype. The own properties of an array are
  its index keys and \<open>length\<close>. The prototype of the last object of a chain is null.
\<close>

datatype js_class =
    PlainObject
  | FunctionObject
  | ArrayObject
  | ArrayBufferObject "8 word list"

datatype js_value =
    JSUndefined
  | JSNull
  | JSBoolean bool
  | JSNumber "64 word"
  | JSString string
  | JSObject js_class "(string \<times> js_value) list" js_value

fun IsString :: "js_value \<Rightarrow> bool" where
  "IsString (JSString _) = True"
| "IsString _ = False"

fun IsNumber :: "js_value \<Rightarrow> bool" where
  "IsNumber (JSNumber _) = True"
| "IsNumber _ = False"

fun IsNull :: "js_value \<Rightarrow> bool" where
  "IsNull JSNull = True"
| "IsNull _ = False"

fun IsArrayBuffer :: "js_value \<Rightarrow> bool" where
  "IsArrayBuffer (JSObject (ArrayBufferObject _) _ _) = True"
| "IsArrayBuffer _ = False"

text \<open>\<^verbatim>\<open>Napi::Value::IsObject\<close> holds of objects and functions; null is not an object.\<close>

fun IsObject :: "js_value \<Rightarrow> bool" where
  "IsObject (JSObject _ _ _) = True"
| "IsObject _ = False"

fun Utf8Value :: "js_value \<Rightarrow> string" where
  "Utf8Value (JSString s) = s"
| "Utf8Value _ = []"

fun Int64Value :: "js_value \<Rightarrow> 64 word" where
  "Int64Value (JSNumber n) = n"
| "Int64Value _ = 0"

fun Data :: "js_value \<Rightarrow> 8 word list" where
  "Data (JSObject (ArrayBufferObject bs) _ _) = bs"
| "Data _ = []"


text \<open>
  \<^verbatim>\<open>obj.Has(name)\<close> is the host's \<open>name in obj\<close> and \<^verbatim>\<open>obj.Get(name)\<close> is
  \<open>obj[name]\<close>: both look at the own properties of the object first and then along its
  prototype chain. The source calls them on values it has tested with \<^verbatim>\<open>IsObject\<close>.
  Every property is a data property: an accessor property or a proxy, whose lookup would
  run code of the host, is not represented.
\<close>

fun Has :: "js_value \<Rightarrow> string \<Rightarrow> bool" where
  "Has (JSObject _ ps proto) name = (name \<in> fst ` set ps \<or> Has proto name)"
| "Has _ name = False"

fun Get :: "js_value \<Rightarrow> string \<Rightarrow> js_value" where
  "Get (JSObject _ ps proto) name =
     (case map_of ps name of None \<Rightarrow> Get proto name | Some v \<Rightarrow> v)"
| "Get _ name = JSUndefined"

text \<open>\<^verbatim>\<open>obj.Set(key, value)\<close>: an existing property is overwritten in place, a new one is
  appended.\<close>

fun Set_prop :: "string \<Rightarrow> js_value \<Rightarrow> (string \<times> js_value) list \<Rightarrow> (string \<times> js_value) list" where
  "Set_prop k v [] = [(k, v)]"
| "Set_prop k v (p # ps) = (if fst p = k then (k, v) # ps else p # Set_prop k v ps)"

text \<open>\<^verbatim>\<open>info[i]\<close> of a \<^verbatim>\<open>Napi::CallbackInfo\<close>: undefined beyond the arguments given.\<close>

definition arg :: "js_value list \<Rightarrow> nat \<Rightarrow> js_value" where
  "arg info i = (if i < length info then info ! i else JSUndefined)"

section \<open>Exceptions\<close>

text \<open>
  Modelled from the spec: the macros \<^verbatim>\<open>ORT_NAPI_THROW_ERROR\<close> and
  \<^verbatim>\<open>ORT_NAPI_THROW_TYPEERROR\<close> of \<^verbatim>\<open>common.h\<close> raise a host error, respectively a
  host type error, with the given message. The engine and the helpers raise exceptions
  derived from \<^verbatim>\<open>std::exception\<close>. A read through a null handle or beyond the end of a
  vector is undefined in C++; the model makes it the outcome \<open>Fault\<close>, which no
  handler catches.
\<close>

datatype exn =
    NapiError string
  | NapiTypeError string
  | StdException string
  | Fault


text \<open>
  The two handlers that close the try blocks of \<^verbatim>\<open>LoadModel\<close> and \<^verbatim>\<open>Run\<close>:
  \<^verbatim>\<open>catch (Napi::Error const& e) { throw e; }\<close> hands a host error on as it is, and
  \<^verbatim>\<open>catch (std::exception const& e) { ORT_NAPI_THROW_ERROR(env, e.what()); }\<close> turns
  any other exception into a host error with the same message.
\<close>

fun rethrow :: "exn \<Rightarrow> exn" where
  "rethrow (StdException m) = NapiError m"
| "rethrow e = e"

definition at :: "'a list \<Rightarrow> nat \<Rightarrow> exn + 'a" where
  "at xs i = (if i < length xs then Inr (xs ! i) else Inl Fault)"

section \<open>The engine and the helpers\<close>

text \<open>
  Modelled from the spec: a cached type-info descriptor carries the ONNX type tag and, for
  a tensor, the element-type code, the concrete shape and the symbolic dimension names.
\<close>

datatype ONNXType =
    ONNX_TYPE_UNKNOWN
  | ONNX_TYPE_TENSOR
  | ONNX_TYPE_SEQUENCE
  | ONNX_TYPE_MAP
  | ONNX_TYPE_OPAQUE
  | ONNX_TYPE_SPARSETENSOR
  | ONNX_TYPE_OPTIONAL

record TensorTypeAndShapeInfo =
  GetElementType :: "64 word"
  GetSymbolicDimensions :: "string list"
  GetShape :: "64 word list"

record TypeInfo =
  GetONNXType :: ONNXType
  GetTensorTypeAndShapeInfo :: TensorTypeAndShapeInfo

datatype MemoryInfo = cpuMemoryInfo | gpuBufferMemoryInfo

text \<open>
  The engine (\<^verbatim>\<open>Ort::Session\<close>, \<^verbatim>\<open>Ort::IoBinding\<close>) and the helpers of the other
  translation units (\<^verbatim>\<open>ParseSessionOptions\<close>, \<^verbatim>\<open>ParsePreferredOutputLocations\<close>,
  \<^verbatim>\<open>ParseRunOptions\<close>, \<^verbatim>\<open>NapiValueToOrtValue\<close>, \<^verbatim>\<open>OrtValueToNapiValue\<close>) are
  parameters of the model: every one of them may raise. The types \<open>'so\<close>, \<open>'ro\<close>,
  \<open>'s\<close>, \<open>'b\<close> and \<open>'v\<close> stand for session options, run options, a native
  session, an I/O binding and a native value.

  \<^verbatim>\<open>ParsePreferredOutputLocations\<close> writes into the vector it is given by reference, so
  it returns the vector's new contents whether or not it raises. \<^verbatim>\<open>BindInput\<close> and
  \<^verbatim>\<open>BindOutput\<close> change the binding they are called on and return it. \<^verbatim>\<open>Run\<close>
  returns the output array as the engine leaves it. \<^verbatim>\<open>ParseRunOptions\<close> stands for
  creating a \<^verbatim>\<open>RunOptions\<close> and filling it from the record.

  The last two fields belong to the host environment \<^verbatim>\<open>env\<close>: the prototypes it gives
  to the objects and to the arrays that the binding creates.
\<close>

record ('so, 'ro, 's, 'b, 'v) ort_api =
  ParseSessionOptions :: "js_value \<Rightarrow> exn + 'so"
  CreateSessionFromPath :: "string \<Rightarrow> 'so \<Rightarrow> exn + 's"
  CreateSessionFromBuffer :: "8 word list \<Rightarrow> 64 word \<Rightarrow> 64 word \<Rightarrow> 'so \<Rightarrow> exn + 's"
  GetInputCount :: "'s \<Rightarrow> exn + nat"
  GetInputNameAllocated :: "'s \<Rightarrow> nat \<Rightarrow> exn + string"
  GetInputTypeInfo :: "'s \<Rightarrow> nat \<Rightarrow> exn + TypeInfo"
  GetOutputCount :: "'s \<Rightarrow> exn + nat"
  GetOutputNameAllocated :: "'s \<Rightarrow> nat \<Rightarrow> exn + string"
  GetOutputTypeInfo :: "'s \<Rightarrow> nat \<Rightarrow> exn + TypeInfo"
  ParsePreferredOutputLocations :: "js_value \<Rightarrow> string list \<Rightarrow> int list \<Rightarrow> int list \<times> exn option"
  CreateIoBinding :: "'s \<Rightarrow> exn + 'b"
  DATA_LOCATION_GPU_BUFFER :: int
  NapiValueToOrtValue :: "js_value \<Rightarrow> exn + 'v"
  OrtValueToNapiValue :: "'v \<Rightarrow> exn + js_value"
  ParseRunOptions :: "js_value \<Rightarrow> exn + 'ro"
  OrtDefaultRunOptions :: "'ro"
  Run :: "'s \<Rightarrow> 'ro \<Rightarrow> string list \<Rightarrow> 'v list \<Rightarrow> string list \<Rightarrow> 'v option list \<Rightarrow> exn + 'v list"
  BindInput :: "'b \<Rightarrow> string \<Rightarrow> 'v \<Rightarrow> exn + 'b"
  BindOutput :: "'b \<Rightarrow> string \<Rightarrow> MemoryInfo \<Rightarrow> exn + 'b"
  RunWithBinding :: "'s \<Rightarrow> 'ro \<Rightarrow> 'b \<Rightarrow> exn + 'b"
  GetOutputValues :: "'b \<Rightarrow> exn + 'v list"
  EndProfilingAllocated :: "'s \<Rightarrow> exn + string"
  ObjectPrototype :: js_value
  ArrayPrototype :: js_value

text \<open>
  \<^verbatim>\<open>Napi::Object::New(env)\<close> followed by \<^verbatim>\<open>Set\<close> calls gives a record with the
  properties set and the host's object prototype. \<^verbatim>\<open>Napi::Array::New(env, n)\<close> with every
  index set gives an array: its own properties are the index keys \<open>0\<close>, \<open>1\<close>, ... in
  decimal and \<open>length\<close>, its prototype the host's array prototype.
\<close>

definition NewObject :: "('so, 'ro, 's, 'b, 'v) ort_api \<Rightarrow> (string \<times> js_value) list \<Rightarrow> js_value" where
  "NewObject api ps = JSObject PlainObject ps (ObjectPrototype api)"

definition digit_char :: "nat \<Rightarrow> char" where
  "digit_char d = ''0123456789'' ! d"

function index_key :: "nat \<Rightarrow> string" where
  "index_key n =
     (if n < 10 then [digit_char n] else index_key (n div 10) @ [digit_char (n mod 10)])"
  by pat_completeness auto
termination
  by (relation "measure id") auto

declare index_key.simps [simp del]

definition NewArray :: "('so, 'ro, 's, 'b, 'v) ort_api \<Rightarrow> js_value list \<Rightarrow> js_value" where
  "NewArray api elements =
     JSObject ArrayObject
       (zip (map index_key [0..<length elements]) elements
          @ [(''length'', JSNumber (of_nat (length elements)))])
       (ArrayPrototype api)"

section \<open>The session object\<close>

text \<open>The members of \<^verbatim>\<open>InferenceSessionWrap\<close> (the source writes them with a trailing
  underscore).\<close>

record ('s, 'b) InferenceSessionWrap =
  initialized :: bool
  disposed :: bool
  session :: "'s option"
  inputNames :: "string list"
  inputTypes :: "TypeInfo list"
  outputNames :: "string list"
  outputTypes :: "TypeInfo list"
  preferredOutputLocations :: "int list"
  ioBinding :: "'b option"

text \<open>The constructor: \<^verbatim>\<open>initialized_(false), disposed_(false), session_(nullptr)\<close>, the
  vectors empty and the binding null.\<close>

definition new_session :: "('s, 'b) InferenceSessionWrap" where
  "new_session = \<lparr> initialized = False, disposed = False, session = None,
     inputNames = [], inputTypes = [], outputNames = [], outputTypes = [],
     preferredOutputLocations = [], ioBinding = None \<rparr>"

subsection \<open>LoadModel\<close>

text \<open>The dispatch on the argument list, the parsing of the options and the creation of
  the native session (lines 75 to 101).\<close>

definition LoadModel_create ::
  "('so, 'ro, 's, 'b, 'v) ort_api \<Rightarrow> js_value list \<Rightarrow> exn + 's" where
  "LoadModel_create api info =
     (let argsLength = length info in
      if argsLength = 2 \<and> IsString (arg info 0) \<and> IsObject (arg info 1) then
        (case ParseSessionOptions api (arg info 1) of
           Inl e \<Rightarrow> Inl e
         | Inr sessionOptions \<Rightarrow>
             CreateSessionFromPath api (Utf8Value (arg info 0)) sessionOptions)
      else if argsLength = 4 \<and> IsArrayBuffer (arg info 0) \<and> IsNumber (arg info 1)
              \<and> IsNumber (arg info 2) \<and> IsObject (arg info 3) then
        (case ParseSessionOptions api (arg info 3) of
           Inl e \<Rightarrow> Inl e
         | Inr sessionOptions \<Rightarrow>
             CreateSessionFromBuffer api (Data (arg info 0)) (Int64Value (arg info 1))
               (Int64Value (arg info 2)) sessionOptions)
      else
        Inl (NapiTypeError ''Invalid argument: args has to be either (modelPath, options) or (buffer, byteOffset, byteLength, options).''))"

text \<open>The two loops that cache names and types (lines 106 to 120), over the indices
  \<open>[0..<count]\<close>. A name is pushed before its type is asked for.\<close>

fun cacheInputs ::
  "('so, 'ro, 's, 'b, 'v) ort_api \<Rightarrow> 's \<Rightarrow> nat list \<Rightarrow> ('s, 'b) InferenceSessionWrap
     \<Rightarrow> ('s, 'b) InferenceSessionWrap \<times> (exn + unit)" where
  "cacheInputs api h [] s = (s, Inr ())"
| "cacheInputs api h (i # is) s =
     (case GetInputNameAllocated api h i of
        Inl e \<Rightarrow> (s, Inl e)
      | Inr input_name \<Rightarrow>
          (let s1 = s\<lparr>inputNames := inputNames s @ [input_name]\<rparr> in
           case GetInputTypeInfo api h i of
             Inl e \<Rightarrow> (s1, Inl e)
           | Inr t \<Rightarrow> cacheInputs api h is (s1\<lparr>inputTypes := inputTypes s1 @ [t]\<rparr>)))"

fun cacheOutputs ::
  "('so, 'ro, 's, 'b, 'v) ort_api \<Rightarrow> 's \<Rightarrow> nat list \<Rightarrow> ('s, 'b) InferenceSessionWrap
     \<Rightarrow> ('s, 'b) InferenceSessionWrap \<times> (exn + unit)" where
  "cacheOutputs api h [] s = (s, Inr ())"
| "cacheOutputs api h (i # is) s =
     (case GetOutputNameAllocated api h i of
        Inl e \<Rightarrow> (s, Inl e)
      | Inr output_name \<Rightarrow>
          (let s1 = s\<lparr>outputNames := outputNames s @ [output_name]\<rparr> in
           case GetOutputTypeInfo api h i of
             Inl e \<Rightarrow> (s1, Inl e)
           | Inr t \<Rightarrow> cacheOutputs api h is (s1\<lparr>outputTypes := outputTypes s1 @ [t]\<rparr>)))"

text \<open>Lines 122 to 126: the preferred output locations, parsed from the last argument,
  and the I/O binding created when there are any.\<close>

definition cachePreferred ::
  "('so, 'ro, 's, 'b, 'v) ort_api \<Rightarrow> js_value list \<Rightarrow> 's \<Rightarrow> ('s, 'b) InferenceSessionWrap
     \<Rightarrow> ('s, 'b) InferenceSessionWrap \<times> (exn + unit)" where
  "cachePreferred api info h s =
     (case ParsePreferredOutputLocations api (arg info (length info - 1)) (outputNames s)
             (preferredOutputLocations s) of
        (locs, Some e) \<Rightarrow> (s\<lparr>preferredOutputLocations := locs\<rparr>, Inl e)
      | (locs, None) \<Rightarrow>
          (let s1 = s\<lparr>preferredOutputLocations := locs\<rparr> in
           if length locs > 0 then
             (case CreateIoBinding api h of
                Inl e \<Rightarrow> (s1, Inl e)
              | Inr b \<Rightarrow> (s1\<lparr>ioBinding := Some b\<rparr>, Inr ()))
           else (s1, Inr ())))"

text \<open>The metadata part of the try block, after the native session \<open>h\<close> is stored.\<close>

definition cacheMetadata ::
  "('so, 'ro, 's, 'b, 'v) ort_api \<Rightarrow> js_value list \<Rightarrow> 's \<Rightarrow> ('s, 'b) InferenceSessionWrap
     \<Rightarrow> ('s, 'b) InferenceSessionWrap \<times> (exn + unit)" where
  "cacheMetadata api info h s =
     (case GetInputCount api h of
        Inl e \<Rightarrow> (s, Inl e)
      | Inr count \<Rightarrow>
          (case cacheInputs api h [0..<count] s of
             (s2, Inl e) \<Rightarrow> (s2, Inl e)
           | (s2, Inr _) \<Rightarrow>
               (case GetOutputCount api h of
                  Inl e \<Rightarrow> (s2, Inl e)
                | Inr count \<Rightarrow>
                    (case cacheOutputs api h [0..<count] s2 of
                       (s3, Inl e) \<Rightarrow> (s3, Inl e)
                     | (s3, Inr _) \<Rightarrow> cachePreferred api info h s3))))"

text \<open>The try block of \<^verbatim>\<open>LoadModel\<close> (lines 72 to 126).\<close>

definition LoadModel_try ::
  "('so, 'ro, 's, 'b, 'v) ort_api \<Rightarrow> js_value list \<Rightarrow> ('s, 'b) InferenceSessionWrap
     \<Rightarrow> ('s, 'b) InferenceSessionWrap \<times> (exn + unit)" where
  "LoadModel_try api info s =
     (case LoadModel_create api info of
        Inl e \<Rightarrow> (s, Inl e)
      | Inr h \<Rightarrow> cacheMetadata api info h (s\<lparr>session := Some h\<rparr>))"

text \<open>\<^verbatim>\<open>InferenceSessionWrap::LoadModel\<close>: the checks of lines 66 to 70, the try block
  and its handlers, and \<^verbatim>\<open>initialized_ = true\<close> when nothing was raised.\<close>

definition LoadModel ::
  "('so, 'ro, 's, 'b, 'v) ort_api \<Rightarrow> js_value list \<Rightarrow> ('s, 'b) InferenceSessionWrap
     \<Rightarrow> ('s, 'b) InferenceSessionWrap \<times> (exn + js_value)" where
  "LoadModel api info s =
     (if initialized s then
        (s, Inl (NapiError ''Model already loaded. Cannot load model multiple times.''))
      else if disposed s then (s, Inl (NapiError ''Session already disposed.''))
      else if length info = 0 then
        (s, Inl (NapiTypeError ''Expect argument: model file path or buffer.''))
      else
        (case LoadModel_try api info s of
           (s', Inl e) \<Rightarrow> (s', Inl (rethrow e))
         | (s', Inr _) \<Rightarrow> (s'\<lparr>initialized := True\<rparr>, Inr JSUndefined)))"

subsection \<open>GetMetadata\<close>

text \<open>Modelled from the spec: \<^verbatim>\<open>CreateNapiArrayFrom\<close> of \<^verbatim>\<open>common.h\<close> builds a host
  array holding the elements of a vector, in order.\<close>

definition CreateNapiArrayFrom ::
  "('so, 'ro, 's, 'b, 'v) ort_api \<Rightarrow> ('a \<Rightarrow> js_value) \<Rightarrow> 'a list \<Rightarrow> js_value" where
  "CreateNapiArrayFrom api f xs = NewArray api (map f xs)"

text \<open>The record built for one entry (lines 146 to 158).\<close>

definition metadataRecord ::
  "('so, 'ro, 's, 'b, 'v) ort_api \<Rightarrow> string \<Rightarrow> TypeInfo \<Rightarrow> js_value" where
  "metadataRecord api name typeInfo =
     (let obj = Set_prop ''name'' (JSString name) [] in
      if GetONNXType typeInfo = ONNX_TYPE_TENSOR then
        (let obj = Set_prop ''isTensor'' (JSBoolean True) obj;
             tensorInfo = GetTensorTypeAndShapeInfo typeInfo;
             obj = Set_prop ''type'' (JSNumber (GetElementType tensorInfo)) obj;
             obj = Set_prop ''symbolicDimensions''
                     (CreateNapiArrayFrom api JSString (GetSymbolicDimensions tensorInfo)) obj;
             obj = Set_prop ''shape''
                     (CreateNapiArrayFrom api JSNumber (GetShape tensorInfo)) obj
         in NewObject api obj)
      else NewObject api (Set_prop ''isTensor'' (JSBoolean False) obj))"

text \<open>The loop of lines 145 to 160 over the indices \<open>[0..<types.size()]\<close>; it reads
  \<^verbatim>\<open>names[i]\<close> and \<^verbatim>\<open>types[i]\<close> and stores the record at index \<open>i\<close>. The array
  under construction is held as the list of its elements.\<close>

fun metadataLoop ::
  "('so, 'ro, 's, 'b, 'v) ort_api \<Rightarrow> string list \<Rightarrow> TypeInfo list \<Rightarrow> nat list
     \<Rightarrow> js_value list \<Rightarrow> exn + js_value list" where
  "metadataLoop api names types [] array = Inr array"
| "metadataLoop api names types (i # is) array =
     (case at names i of
        Inl e \<Rightarrow> Inl e
      | Inr name \<Rightarrow>
          (case at types i of
             Inl e \<Rightarrow> Inl e
           | Inr typeInfo \<Rightarrow>
               metadataLoop api names types is (array[i := metadataRecord api name typeInfo])))"

text \<open>\<open>input\<close> is the accessor's data pointer: non-null for \<^verbatim>\<open>inputMetadata\<close>, null for
  \<^verbatim>\<open>outputMetadata\<close>.\<close>

definition GetMetadata ::
  "('so, 'ro, 's, 'b, 'v) ort_api \<Rightarrow> bool \<Rightarrow> ('s, 'b) InferenceSessionWrap
     \<Rightarrow> ('s, 'b) InferenceSessionWrap \<times> (exn + js_value)" where
  "GetMetadata api input s =
     (if \<not> initialized s then (s, Inl (NapiError ''Session is not initialized.''))
      else if disposed s then (s, Inl (NapiError ''Session already disposed.''))
      else
        (let names = (if input then inputNames s else outputNames s);
             types = (if input then inputTypes s else outputTypes s);
             array = replicate (length types) JSUndefined
         in case metadataLoop api names types [0..<length types] array of
              Inl e \<Rightarrow> (s, Inl e)
            | Inr array \<Rightarrow> (s, Inr (NewArray api array))))"

subsection \<open>Run\<close>

text \<open>The loop of lines 190 to 197. The accumulator is \<^verbatim>\<open>inputIndex\<close>,
  \<^verbatim>\<open>inputNames_cstr\<close> and \<^verbatim>\<open>inputValues\<close>.\<close>

fun collectInputs ::
  "('so, 'ro, 's, 'b, 'v) ort_api \<Rightarrow> js_value \<Rightarrow> string list \<Rightarrow> nat \<times> string list \<times> 'v list
     \<Rightarrow> exn + nat \<times> string list \<times> 'v list" where
  "collectInputs api feed [] acc = Inr acc"
| "collectInputs api feed (name # rest) (inputIndex, inputNames_cstr, inputValues) =
     (if Has feed name then
        (case NapiValueToOrtValue api (Get feed name) of
           Inl e \<Rightarrow> Inl e
         | Inr v \<Rightarrow>
             collectInputs api feed rest
               (inputIndex + 1, inputNames_cstr @ [name], inputValues @ [v]))
      else collectInputs api feed rest (inputIndex, inputNames_cstr, inputValues))"

text \<open>The loop of lines 198 to 206. A null entry of \<^verbatim>\<open>fetch\<close> gives the null native
  value \<open>None\<close>. The vector \<^verbatim>\<open>reuseOutput\<close> is written and never read; it is left
  out.\<close>

fun collectOutputs ::
  "('so, 'ro, 's, 'b, 'v) ort_api \<Rightarrow> js_value \<Rightarrow> string list
     \<Rightarrow> nat \<times> string list \<times> 'v option list \<Rightarrow> exn + nat \<times> string list \<times> 'v option list" where
  "collectOutputs api fetch [] acc = Inr acc"
| "collectOutputs api fetch (name # rest) (outputIndex, outputNames_cstr, outputValues) =
     (if Has fetch name then
        (let value = Get fetch name in
         if IsNull value then
           collectOutputs api fetch rest
             (outputIndex + 1, outputNames_cstr @ [name], outputValues @ [None])
         else
           (case NapiValueToOrtValue api value of
              Inl e \<Rightarrow> Inl e
            | Inr v \<Rightarrow>
                collectOutputs api fetch rest
                  (outputIndex + 1, outputNames_cstr @ [name], outputValues @ [Some v])))
      else collectOutputs api fetch rest (outputIndex, outputNames_cstr, outputValues))"

text \<open>Lines 208 to 212 and the choice of the run options passed to the engine.\<close>

definition runOptionsOf :: "('so, 'ro, 's, 'b, 'v) ort_api \<Rightarrow> js_value list \<Rightarrow> exn + 'ro" where
  "runOptionsOf api info =
     (if length info > 2 then ParseRunOptions api (arg info 2)
      else Inr (OrtDefaultRunOptions api))"

text \<open>The loops of lines 221 to 223 and 249 to 251, over the indices
  \<open>[0..<outputIndex]\<close>: the value at index \<open>i\<close> is wrapped and stored under
  \<^verbatim>\<open>outputNames_[i]\<close>, the \<open>i\<close>-th declared output name.\<close>

fun setResults ::
  "('so, 'ro, 's, 'b, 'v) ort_api \<Rightarrow> string list \<Rightarrow> 'v list \<Rightarrow> nat list
     \<Rightarrow> (string \<times> js_value) list \<Rightarrow> exn + (string \<times> js_value) list" where
  "setResults api names values [] result = Inr result"
| "setResults api names values (i # is) result =
     (case at values i of
        Inl e \<Rightarrow> Inl e
      | Inr v \<Rightarrow>
          (case OrtValueToNapiValue api v of
             Inl e \<Rightarrow> Inl e
           | Inr jv \<Rightarrow>
               (case at names i of
                  Inl e \<Rightarrow> Inl e
                | Inr name \<Rightarrow> setResults api names values is (Set_prop name jv result))))"

text \<open>The direct path (lines 214 to 224).\<close>

definition runDirect ::
  "('so, 'ro, 's, 'b, 'v) ort_api \<Rightarrow> 'ro \<Rightarrow> nat \<times> string list \<times> 'v list
     \<Rightarrow> nat \<times> string list \<times> 'v option list \<Rightarrow> ('s, 'b) InferenceSessionWrap
     \<Rightarrow> ('s, 'b) InferenceSessionWrap \<times> (exn + js_value)" where
  "runDirect api runOptions ins outs s =
     (case ins of (inputIndex, inputNames_cstr, inputValues) \<Rightarrow>
     (case outs of (outputIndex, outputNames_cstr, outputValues) \<Rightarrow>
     (case session s of
        None \<Rightarrow> (s, Inl Fault)
      | Some h \<Rightarrow>
          (case Run api h runOptions inputNames_cstr inputValues outputNames_cstr outputValues of
             Inl e \<Rightarrow> (s, Inl e)
           | Inr outputValues \<Rightarrow>
               (case setResults api (outputNames s) outputValues [0..<outputIndex] [] of
                  Inl e \<Rightarrow> (s, Inl e)
                | Inr result \<Rightarrow> (s, Inr (NewObject api result)))))))"

text \<open>The loops of lines 230 to 232 and 233 to 241 on the binding \<open>b\<close>.\<close>

fun bindInputs ::
  "('so, 'ro, 's, 'b, 'v) ort_api \<Rightarrow> string list \<Rightarrow> 'v list \<Rightarrow> nat list \<Rightarrow> 'b \<Rightarrow> 'b \<times> (exn + unit)" where
  "bindInputs api inputNames_cstr inputValues [] b = (b, Inr ())"
| "bindInputs api inputNames_cstr inputValues (i # is) b =
     (case at inputNames_cstr i of
        Inl e \<Rightarrow> (b, Inl e)
      | Inr name \<Rightarrow>
          (case at inputValues i of
             Inl e \<Rightarrow> (b, Inl e)
           | Inr v \<Rightarrow>
               (case BindInput api b name v of
                  Inl e \<Rightarrow> (b, Inl e)
                | Inr b' \<Rightarrow> bindInputs api inputNames_cstr inputValues is b')))"

fun bindOutputs ::
  "('so, 'ro, 's, 'b, 'v) ort_api \<Rightarrow> int list \<Rightarrow> string list \<Rightarrow> nat list \<Rightarrow> 'b \<Rightarrow> 'b \<times> (exn + unit)" where
  "bindOutputs api locs outputNames_cstr [] b = (b, Inr ())"
| "bindOutputs api locs outputNames_cstr (i # is) b =
     (case at locs i of
        Inl e \<Rightarrow> (b, Inl e)
      | Inr loc \<Rightarrow>
          (case at outputNames_cstr i of
             Inl e \<Rightarrow> (b, Inl e)
           | Inr name \<Rightarrow>
               (case BindOutput api b name
                       (if loc = DATA_LOCATION_GPU_BUFFER api then gpuBufferMemoryInfo
                        else cpuMemoryInfo) of
                  Inl e \<Rightarrow> (b, Inl e)
                | Inr b' \<Rightarrow> bindOutputs api locs outputNames_cstr is b')))"

text \<open>Lines 243 to 252: the engine runs with the binding, the bound outputs are fetched,
  counted and wrapped.\<close>

definition runBound ::
  "('so, 'ro, 's, 'b, 'v) ort_api \<Rightarrow> 'ro \<Rightarrow> nat \<Rightarrow> 'b \<Rightarrow> ('s, 'b) InferenceSessionWrap
     \<Rightarrow> ('s, 'b) InferenceSessionWrap \<times> (exn + js_value)" where
  "runBound api runOptions outputIndex b2 s =
     (case session s of
        None \<Rightarrow> (s\<lparr>ioBinding := Some b2\<rparr>, Inl Fault)
      | Some h \<Rightarrow>
          (case RunWithBinding api h runOptions b2 of
             Inl e \<Rightarrow> (s\<lparr>ioBinding := Some b2\<rparr>, Inl e)
           | Inr b3 \<Rightarrow>
               (case GetOutputValues api b3 of
                  Inl e \<Rightarrow> (s\<lparr>ioBinding := Some b3\<rparr>, Inl e)
                | Inr outputs \<Rightarrow>
                    (if length outputs \<noteq> outputIndex then
                       (s\<lparr>ioBinding := Some b3\<rparr>, Inl (NapiError ''Output count mismatch.''))
                     else
                       (case setResults api (outputNames s) outputs [0..<outputIndex] [] of
                          Inl e \<Rightarrow> (s\<lparr>ioBinding := Some b3\<rparr>, Inl e)
                        | Inr result \<Rightarrow>
                            (s\<lparr>ioBinding := Some b3\<rparr>, Inr (NewObject api result)))))))"

text \<open>The I/O-binding path (lines 226 to 252). The binding object is changed by the calls
  made on it, also when a later call raises.\<close>

definition runBinding ::
  "('so, 'ro, 's, 'b, 'v) ort_api \<Rightarrow> 'ro \<Rightarrow> nat \<times> string list \<times> 'v list
     \<Rightarrow> nat \<times> string list \<times> 'v option list \<Rightarrow> ('s, 'b) InferenceSessionWrap
     \<Rightarrow> ('s, 'b) InferenceSessionWrap \<times> (exn + js_value)" where
  "runBinding api runOptions ins outs s =
     (case ins of (inputIndex, inputNames_cstr, inputValues) \<Rightarrow>
     (case outs of (outputIndex, outputNames_cstr, outputValues) \<Rightarrow>
       (if length (preferredOutputLocations s) \<noteq> length (outputNames s) then
          (s, Inl (NapiError ''Preferred output locations must have the same size as output names.''))
        else
          (case ioBinding s of
             None \<Rightarrow> (s, Inl Fault)
           | Some b \<Rightarrow>
               (case bindInputs api inputNames_cstr inputValues [0..<inputIndex] b of
                  (b1, Inl e) \<Rightarrow> (s\<lparr>ioBinding := Some b1\<rparr>, Inl e)
                | (b1, Inr _) \<Rightarrow>
                    (case bindOutputs api (preferredOutputLocations s) outputNames_cstr
                            [0..<outputIndex] b1 of
                       (b2, Inl e) \<Rightarrow> (s\<lparr>ioBinding := Some b2\<rparr>, Inl e)
                     | (b2, Inr _) \<Rightarrow> runBound api runOptions outputIndex b2 s))))))"

text \<open>The try block of \<^verbatim>\<open>Run\<close> (lines 189 to 253).\<close>

definition Run_try ::
  "('so, 'ro, 's, 'b, 'v) ort_api \<Rightarrow> js_value list \<Rightarrow> ('s, 'b) InferenceSessionWrap
     \<Rightarrow> ('s, 'b) InferenceSessionWrap \<times> (exn + js_value)" where
  "Run_try api info s =
     (let feed = arg info 0; fetch = arg info 1 in
      case collectInputs api feed (inputNames s) (0, [], []) of
        Inl e \<Rightarrow> (s, Inl e)
      | Inr ins \<Rightarrow>
          (case collectOutputs api fetch (outputNames s) (0, [], []) of
             Inl e \<Rightarrow> (s, Inl e)
           | Inr outs \<Rightarrow>
               (case runOptionsOf api info of
                  Inl e \<Rightarrow> (s, Inl e)
                | Inr runOptions \<Rightarrow>
                    (if length (preferredOutputLocations s) = 0
                     then runDirect api runOptions ins outs s
                     else runBinding api runOptions ins outs s))))"

text \<open>\<^verbatim>\<open>InferenceSessionWrap::Run\<close>, the method the host calls as \<^verbatim>\<open>run\<close>
  (\<open>Run\<close> is the engine's \<^verbatim>\<open>Ort::Session::Run\<close>): the checks of lines 166 to 172,
  then the try block and its handlers.\<close>

definition run ::
  "('so, 'ro, 's, 'b, 'v) ort_api \<Rightarrow> js_value list \<Rightarrow> ('s, 'b) InferenceSessionWrap
     \<Rightarrow> ('s, 'b) InferenceSessionWrap \<times> (exn + js_value)" where
  "run api info s =
     (if \<not> initialized s then (s, Inl (NapiError ''Session is not initialized.''))
      else if disposed s then (s, Inl (NapiError ''Session already disposed.''))
      else if length info < 2 then
        (s, Inl (NapiTypeError ''Expect argument: inputs(feed) and outputs(fetch).''))
      else if \<not> IsObject (arg info 0) \<or> \<not> IsObject (arg info 1) then
        (s, Inl (NapiTypeError ''Expect inputs(feed) and outputs(fetch) to be objects.''))
      else if length info > 2 \<and> (\<not> IsObject (arg info 2) \<or> IsNull (arg info 2)) then
        (s, Inl (NapiTypeError '''runOptions' must be an object.''))
      else
        (case Run_try api info s of
           (s', Inl e) \<Rightarrow> (s', Inl (rethrow e))
         | (s', Inr result) \<Rightarrow> (s', Inr result)))"

subsection \<open>Dispose and EndProfiling\<close>

definition Dispose ::
  "('s, 'b) InferenceSessionWrap \<Rightarrow> ('s, 'b) InferenceSessionWrap \<times> (exn + js_value)" where
  "Dispose s =
     (if \<not> initialized s then (s, Inl (NapiError ''Session is not initialized.''))
      else if disposed s then (s, Inl (NapiError ''Session already disposed.''))
      else (s\<lparr>ioBinding := None, session := None, disposed := True\<rparr>, Inr JSUndefined))"

text \<open>\<^verbatim>\<open>EndProfiling\<close> has no try block: what the engine raises leaves it as it is.\<close>

definition EndProfiling ::
  "('so, 'ro, 's, 'b, 'v) ort_api \<Rightarrow> ('s, 'b) InferenceSessionWrap
     \<Rightarrow> ('s, 'b) InferenceSessionWrap \<times> (exn + js_value)" where
  "EndProfiling api s =
     (if \<not> initialized s then (s, Inl (NapiError ''Session is not initialized.''))
      else if disposed s then (s, Inl (NapiError ''Session already disposed.''))
      else
        (case session s of
           None \<Rightarrow> (s, Inl Fault)
         | Some h \<Rightarrow>
             (case EndProfilingAllocated api h of
                Inl e \<Rightarrow> (s, Inl e)
              | Inr filename \<Rightarrow> (s, Inr (JSString filename)))))"

section \<open>Properties stated in the words of the specification\<close>

text \<open>The two argument lists \<^verbatim>\<open>loadModel\<close> is specified to accept:
  \<open>(modelPath, options)\<close> and \<open>(buffer, byteOffset, byteLength, options)\<close>.\<close>

definition accepted_shape :: "js_value list \<Rightarrow> bool" where
  "accepted_shape info =
     (case info of
        [modelPath, options] \<Rightarrow> IsString modelPath \<and> IsObject options
      | [buffer, byteOffset, byteLength, options] \<Rightarrow>
          IsArrayBuffer buffer \<and> IsNumber byteOffset \<and> IsNumber byteLength \<and> IsObject options
      | _ \<Rightarrow> False)"

text \<open>The engine and the helpers raise nothing on the calls \<^verbatim>\<open>LoadModel\<close> makes for the
  argument list \<open>info\<close>.\<close>

definition cooperative :: "('so, 'ro, 's, 'b, 'v) ort_api \<Rightarrow> js_value list \<Rightarrow> bool" where
  "cooperative api info =
     (\<exists>sessionOptions h.
        ParseSessionOptions api (arg info (length info - 1)) = Inr sessionOptions
      \<and> (if length info = 2
         then CreateSessionFromPath api (Utf8Value (arg info 0)) sessionOptions
         else CreateSessionFromBuffer api (Data (arg info 0)) (Int64Value (arg info 1))
                (Int64Value (arg info 2)) sessionOptions) = Inr h
      \<and> (\<exists>n. GetInputCount api h = Inr n
            \<and> (\<forall>i<n. \<not> isl (GetInputNameAllocated api h i) \<and> \<not> isl (GetInputTypeInfo api h i)))
      \<and> (\<exists>n. GetOutputCount api h = Inr n
            \<and> (\<forall>i<n. \<not> isl (GetOutputNameAllocated api h i) \<and> \<not> isl (GetOutputTypeInfo api h i)))
      \<and> (\<forall>names locs.
            snd (ParsePreferredOutputLocations api (arg info (length info - 1)) names locs) = None)
      \<and> \<not> isl (CreateIoBinding api h))"

text \<open>The I/O binding is present iff there are preferred output locations.\<close>

definition binding_invariant :: "('s, 'b) InferenceSessionWrap \<Rightarrow> bool" where
  "binding_invariant s = ((ioBinding s \<noteq> None) = (preferredOutputLocations s \<noteq> []))"

text \<open>Two relations between a state and a later one: the flags and the handles are the same,
  respectively nothing but the contents of the binding differ. With them, the fact that no
  more types than names are cached, which keeps the reads of \<^verbatim>\<open>GetMetadata\<close> in
  range.\<close>

definition unchanged_by_caching ::
  "('s, 'b) InferenceSessionWrap \<Rightarrow> ('s, 'b) InferenceSessionWrap \<Rightarrow> bool" where
  "unchanged_by_caching s s' =
     (initialized s' = initialized s \<and> disposed s' = disposed s \<and> session s' = session s
      \<and> ioBinding s' = ioBinding s)"

definition only_binding_updated ::
  "('s, 'b) InferenceSessionWrap \<Rightarrow> ('s, 'b) InferenceSessionWrap \<Rightarrow> bool" where
  "only_binding_updated s s' =
     (s' = s\<lparr>ioBinding := ioBinding s'\<rparr> \<and> (ioBinding s' = None) = (ioBinding s = None))"

definition types_within_names :: "('s, 'b) InferenceSessionWrap \<Rightarrow> bool" where
  "types_within_names s =
     (length (inputTypes s) \<le> length (inputNames s)
      \<and> length (outputTypes s) \<le> length (outputNames s))"

text \<open>The vocabulary of the statements about \<^verbatim>\<open>run\<close>. \<open>marshalAll\<close> converts
  the elements of a list in order and stops at the first that raises; \<open>callEach\<close> makes
  one call per element of a list, in order, each on the object the previous call returned.
  \<open>requestedValue\<close> is the native value handed over for a requested output: null for a
  null entry of the fetch, the converted entry otherwise. \<open>raised\<close> applies the two
  handlers to an outcome.\<close>

fun marshalAll :: "('a \<Rightarrow> exn + 'c) \<Rightarrow> 'a list \<Rightarrow> exn + 'c list" where
  "marshalAll f [] = Inr []"
| "marshalAll f (x # xs) =
     (case f x of
        Inl e \<Rightarrow> Inl e
      | Inr y \<Rightarrow> (case marshalAll f xs of Inl e \<Rightarrow> Inl e | Inr ys \<Rightarrow> Inr (y # ys)))"


definition requestedValue ::
  "('so, 'ro, 's, 'b, 'v) ort_api \<Rightarrow> js_value \<Rightarrow> string \<Rightarrow> exn + 'v option" where
  "requestedValue api fetch name =
     (if IsNull (Get fetch name) then Inr None
      else (case NapiValueToOrtValue api (Get fetch name) of
              Inl e \<Rightarrow> Inl e | Inr v \<Rightarrow> Inr (Some v)))"



section \<open>An engine for the examples\<close>

text \<open>A model with one input \<open>x\<close> and two outputs, \<open>y1 = x\<close> and
  \<open>y2 = x + 1\<close>; a native value is a number, and nothing else converts to one. Loading
  fails for every path but \<open>model.onnx\<close>; the only preferred output location understood
  is \<open>gpu-buffer\<close> for all outputs, and any other raises. A binding records what was
  bound to it. The host's object prototype holds \<open>constructor\<close> and \<open>toString\<close>, as
  that of every host does; \<open>demo_record\<close> is a record written as a literal.\<close>

definition demo_type :: TypeInfo where
  "demo_type = \<lparr> GetONNXType = ONNX_TYPE_TENSOR,
     GetTensorTypeAndShapeInfo =
       \<lparr> GetElementType = 1, GetSymbolicDimensions = [''''], GetShape = [2] \<rparr> \<rparr>"

definition demo_Object_prototype :: js_value where
  "demo_Object_prototype =
     JSObject PlainObject
       [(''constructor'', JSObject FunctionObject [] JSNull),
        (''toString'', JSObject FunctionObject [] JSNull)] JSNull"

definition demo_Array_prototype :: js_value where
  "demo_Array_prototype =
     JSObject PlainObject [(''push'', JSObject FunctionObject [] JSNull)] demo_Object_prototype"

definition demo_record :: "(string \<times> js_value) list \<Rightarrow> js_value" where
  "demo_record ps = JSObject PlainObject ps demo_Object_prototype"

definition demo_api ::
  "(unit, unit, nat, (string \<times> 64 word) list \<times> (string \<times> MemoryInfo) list, 64 word) ort_api" where
  "demo_api = \<lparr>
     ParseSessionOptions = (\<lambda>opts.
       if Has opts ''graphOptimizationLevel''
       then Inl (NapiTypeError ''Invalid argument: graphOptimizationLevel'') else Inr ()),
     CreateSessionFromPath = (\<lambda>path so.
       if path = ''model.onnx'' then Inr 0 else Inl (StdException ''Load model failed'')),
     CreateSessionFromBuffer = (\<lambda>bytes offset len so. Inr 0),
     GetInputCount = (\<lambda>h. Inr 1),
     GetInputNameAllocated = (\<lambda>h i. Inr ''x''),
     GetInputTypeInfo = (\<lambda>h i. Inr demo_type),
     GetOutputCount = (\<lambda>h. Inr 2),
     GetOutputNameAllocated = (\<lambda>h i. Inr (if i = 0 then ''y1'' else ''y2'')),
     GetOutputTypeInfo = (\<lambda>h i. Inr demo_type),
     ParsePreferredOutputLocations = (\<lambda>opts names locs.
       if Get opts ''preferredOutputLocation'' = JSUndefined then (locs, None)
       else if Get opts ''preferredOutputLocation'' = JSString ''gpu-buffer''
       then (replicate (length names) 4, None)
       else (locs, Some (NapiTypeError ''Invalid argument: preferredOutputLocation''))),
     CreateIoBinding = (\<lambda>h. Inr ([], [])),
     DATA_LOCATION_GPU_BUFFER = 4,
     NapiValueToOrtValue = (\<lambda>v.
       case v of JSNumber n \<Rightarrow> Inr n | _ \<Rightarrow> Inl (NapiTypeError ''Invalid tensor'')),
     OrtValueToNapiValue = (\<lambda>v. Inr (JSNumber v)),
     ParseRunOptions = (\<lambda>opts. Inr ()),
     OrtDefaultRunOptions = (),
     Run = (\<lambda>h ro inames ivals onames ovals.
       case map_of (zip inames ivals) ''x'' of
         None \<Rightarrow> Inl (StdException ''Missing input: x'')
       | Some x \<Rightarrow> Inr (map (\<lambda>n. if n = ''y1'' then x else x + 1) onames)),
     BindInput = (\<lambda>b n v. Inr (fst b @ [(n, v)], snd b)),
     BindOutput = (\<lambda>b n m. Inr (fst b, snd b @ [(n, m)])),
     RunWithBinding = (\<lambda>h ro b. Inr b),
     GetOutputValues = (\<lambda>b.
       case map_of (fst b) ''x'' of
         None \<Rightarrow> Inl (StdException ''Missing input: x'')
       | Some x \<Rightarrow> Inr (map (\<lambda>p. if fst p = ''y1'' then x else x + 1) (snd b))),
     EndProfilingAllocated = (\<lambda>h. Inr ''profile.json''),
     ObjectPrototype = demo_Object_prototype,
     ArrayPrototype = demo_Array_prototype \<rparr>"


type_synonym demo_session =
  "(nat, (string \<times> 64 word) list \<times> (string \<times> MemoryInfo) list) InferenceSessionWrap"

text \<open>Argument lists for \<^verbatim>\<open>loadModel\<close>, and the sessions they lead to.\<close>

definition demo_info :: "js_value list" where
  "demo_info = [JSString ''model.onnx'', demo_record []]"

definition demo_info_gpu :: "js_value list" where
  "demo_info_gpu =
     [JSString ''model.onnx'', demo_record [(''preferredOutputLocation'', JSString ''gpu-buffer'')]]"



definition demo_loaded :: demo_session where
  "demo_loaded = \<lparr> initialized = True, disposed = False, session = Some 0,
     inputNames = [''x''], inputTypes = [demo_type],
     outputNames = [''y1'', ''y2''], outputTypes = [demo_type, demo_type],
     preferredOutputLocations = [], ioBinding = None \<rparr>"


definition demo_bound :: demo_session where
  "demo_bound = \<lparr> initialized = True, disposed = False, session = Some 0,
     inputNames = [''x''], inputTypes = [demo_type],
     outputNames = [''y1'', ''y2''], outputTypes = [demo_type, demo_type],
     preferredOutputLocations = [4, 4], ioBinding = Some ([], []) \<rparr>"


definition demo_info_buffer :: "js_value list" where
  "demo_info_buffer =
     [JSObject (ArrayBufferObject [1, 2, 3]) [] JSNull, JSNumber 0, JSNumber 3, demo_record []]"

section \<open>Auxiliary lemmas\<close>

subsection \<open>Evaluation of the examples\<close>

lemma upt_2: "[0..<2] = [0, Suc 0]" by (simp add: upt_rec)

lemma demo_LoadModel:
  "LoadModel demo_api [JSString ''model.onnx'', demo_record []] new_session = (demo_loaded, Inr JSUndefined)"
  by (simp add: LoadModel_def LoadModel_try_def LoadModel_create_def cacheMetadata_def
      cachePreferred_def demo_api_def new_session_def demo_loaded_def arg_def demo_record_def demo_Object_prototype_def upt_2)

lemma demo_LoadModel':
  "LoadModel demo_api demo_info new_session = (demo_loaded, Inr JSUndefined)"
  by (simp add: demo_info_def demo_LoadModel)

lemma demo_LoadModel_bound:
  "LoadModel demo_api [JSString ''model.onnx'', demo_record [(''preferredOutputLocation'', JSString ''gpu-buffer'')]] new_session = (demo_bound, Inr JSUndefined)"
  by (simp add: LoadModel_def LoadModel_try_def LoadModel_create_def cacheMetadata_def
      cachePreferred_def demo_api_def new_session_def demo_bound_def arg_def demo_record_def demo_Object_prototype_def upt_2)

lemma demo_LoadModel_gpu:
  "LoadModel demo_api demo_info_gpu new_session = (demo_bound, Inr JSUndefined)"
  by (simp add: demo_info_gpu_def demo_LoadModel_bound)




lemma demo_run_y2:
  "run demo_api [demo_record [(''x'', JSNumber 5)], demo_record [(''y2'', JSNull)]] demo_loaded
     = (demo_loaded, Inr (demo_record [(''y1'', JSNumber 6)]))"
  by (simp add: run_def Run_try_def runOptionsOf_def runDirect_def demo_api_def demo_loaded_def NewObject_def
       arg_def demo_record_def demo_Object_prototype_def at_def)

lemma demo_fresh: "\<not> initialized (new_session :: ('s, 'b) InferenceSessionWrap)"
  "\<not> disposed (new_session :: ('s, 'b) InferenceSessionWrap)"
  "ioBinding (new_session :: ('s, 'b) InferenceSessionWrap) = None"
  by (simp_all add: new_session_def)

lemma demo_Dispose_bound:
  "Dispose demo_bound = (demo_bound\<lparr>ioBinding := None, session := None, disposed := True\<rparr>, Inr JSUndefined)"
  by (simp add: Dispose_def demo_bound_def)

subsection \<open>LoadModel\<close>

lemma unchanged_by_caching_refl [simp]: "unchanged_by_caching s s"
  by (simp add: unchanged_by_caching_def)

lemma cacheInputs_unchanged:
  "cacheInputs api h is s = (s', r) \<Longrightarrow>
     unchanged_by_caching s s' \<and> outputNames s' = outputNames s
     \<and> outputTypes s' = outputTypes s \<and> preferredOutputLocations s' = preferredOutputLocations s"
proof (induction "is" arbitrary: s)
  case Nil
  then show ?case by auto
next
  case (Cons i "is")
  show ?case
  proof (cases "GetInputNameAllocated api h i")
    case (Inl e)
    with Cons.prems show ?thesis by auto
  next
    case (Inr name)
    note name = this
    show ?thesis
    proof (cases "GetInputTypeInfo api h i")
      case (Inl e)
      with name Cons.prems show ?thesis by (auto simp: unchanged_by_caching_def)
    next
      case (Inr t)
      with name Cons.prems
      have "cacheInputs api h is (s\<lparr>inputNames := inputNames s @ [name],
               inputTypes := inputTypes s @ [t]\<rparr>) = (s', r)"
        by simp
      from Cons.IH [OF this] show ?thesis by (simp add: unchanged_by_caching_def)
    qed
  qed
qed

lemma cacheOutputs_unchanged:
  "cacheOutputs api h is s = (s', r) \<Longrightarrow>
     unchanged_by_caching s s' \<and> inputNames s' = inputNames s
     \<and> inputTypes s' = inputTypes s \<and> preferredOutputLocations s' = preferredOutputLocations s"
proof (induction "is" arbitrary: s)
  case Nil
  then show ?case by auto
next
  case (Cons i "is")
  show ?case
  proof (cases "GetOutputNameAllocated api h i")
    case (Inl e)
    with Cons.prems show ?thesis by auto
  next
    case (Inr name)
    note name = this
    show ?thesis
    proof (cases "GetOutputTypeInfo api h i")
      case (Inl e)
      with name Cons.prems show ?thesis by (auto simp: unchanged_by_caching_def)
    next
      case (Inr t)
      with name Cons.prems
      have "cacheOutputs api h is (s\<lparr>outputNames := outputNames s @ [name],
               outputTypes := outputTypes s @ [t]\<rparr>) = (s', r)"
        by simp
      from Cons.IH [OF this] show ?thesis by (simp add: unchanged_by_caching_def)
    qed
  qed
qed

lemma cachePreferred_flags:
  "cachePreferred api info h s = (s', r) \<Longrightarrow>
     initialized s' = initialized s \<and> disposed s' = disposed s \<and> session s' = session s"
  by (auto simp: cachePreferred_def Let_def split: prod.splits option.splits sum.splits if_splits)

lemma cachePreferred_fail:
  "cachePreferred api info h s = (s', Inl e) \<Longrightarrow> ioBinding s' = ioBinding s"
  by (auto simp: cachePreferred_def Let_def split: prod.splits option.splits sum.splits if_splits)

lemma cachePreferred_ok:
  "cachePreferred api info h s = (s', Inr u) \<Longrightarrow> ioBinding s = None \<Longrightarrow>
     (ioBinding s' \<noteq> None) = (preferredOutputLocations s' \<noteq> [])"
  by (auto simp: cachePreferred_def Let_def split: prod.splits option.splits sum.splits if_splits)

lemma cacheMetadata_flags:
  assumes "cacheMetadata api info h s = (s', r)"
  shows "initialized s' = initialized s \<and> disposed s' = disposed s \<and> session s' = session s"
  using assms
  by (auto simp: cacheMetadata_def unchanged_by_caching_def
      split: sum.splits prod.splits
      dest!: cacheInputs_unchanged cacheOutputs_unchanged cachePreferred_flags)

lemma cacheMetadata_fail:
  assumes "cacheMetadata api info h s = (s', Inl e)"
  shows "ioBinding s' = ioBinding s"
  using assms
  by (auto simp: cacheMetadata_def unchanged_by_caching_def
      split: sum.splits prod.splits
      dest!: cacheInputs_unchanged cacheOutputs_unchanged cachePreferred_fail)

lemma cacheMetadata_ok:
  assumes "cacheMetadata api info h s = (s', Inr u)" "ioBinding s = None"
  shows "(ioBinding s' \<noteq> None) = (preferredOutputLocations s' \<noteq> [])"
proof -
  from assms(1) obtain n s2 m s3 where
    a: "cacheInputs api h [0..<n] s = (s2, Inr ())"
    and b: "cacheOutputs api h [0..<m] s2 = (s3, Inr ())"
    and c: "cachePreferred api info h s3 = (s', Inr u)"
    by (auto simp: cacheMetadata_def split: sum.splits prod.splits)
  from cacheInputs_unchanged [OF a] cacheOutputs_unchanged [OF b] assms(2)
  have "ioBinding s3 = None" by (simp add: unchanged_by_caching_def)
  from cachePreferred_ok [OF c this] show ?thesis .
qed

lemma LoadModel_fail:
  assumes "LoadModel api info s = (s', Inl e)"
  shows "initialized s' = initialized s \<and> disposed s' = disposed s \<and> ioBinding s' = ioBinding s"
proof (cases "initialized s \<or> disposed s \<or> length info = 0")
  case True
  with assms show ?thesis by (auto simp: LoadModel_def split: if_splits)
next
  case False
  show ?thesis
  proof (cases "LoadModel_create api info")
    case (Inl x)
    with False assms show ?thesis by (auto simp: LoadModel_def LoadModel_try_def)
  next
    case (Inr h)
    with False assms obtain x where
      m: "cacheMetadata api info h (s\<lparr>session := Some h\<rparr>) = (s', Inl x)"
      by (auto simp: LoadModel_def LoadModel_try_def split: sum.splits prod.splits)
    from cacheMetadata_flags [OF m] cacheMetadata_fail [OF m] show ?thesis by simp
  qed
qed

lemma LoadModel_ok:
  assumes "LoadModel api info s = (s', Inr r)"
  shows "\<not> initialized s \<and> \<not> disposed s \<and> initialized s' \<and> \<not> disposed s' \<and> session s' \<noteq> None
     \<and> r = JSUndefined
     \<and> (ioBinding s = None \<longrightarrow> (ioBinding s' \<noteq> None) = (preferredOutputLocations s' \<noteq> []))"
proof -
  from assms have fresh: "\<not> initialized s" "\<not> disposed s" and len: "length info \<noteq> 0"
    by (auto simp: LoadModel_def split: if_splits)
  from assms fresh len obtain h s1 where
    h: "LoadModel_create api info = Inr h"
    and m: "cacheMetadata api info h (s\<lparr>session := Some h\<rparr>) = (s1, Inr ())"
    and s': "s' = s1\<lparr>initialized := True\<rparr>" and r: "r = JSUndefined"
    by (auto simp: LoadModel_def LoadModel_try_def split: sum.splits prod.splits)
  from cacheMetadata_flags [OF m] cacheMetadata_ok [OF m] fresh s' r
  show ?thesis by simp
qed


lemma already_loaded_message:
  "sublist ''already loaded'' ''Model already loaded. Cannot load model multiple times.''"
proof -
  have "''Model already loaded. Cannot load model multiple times.''
      = ''Model '' @ ''already loaded'' @ ''. Cannot load model multiple times.''"
    by simp
  then show ?thesis unfolding sublist_def by blast
qed

lemma accepted_shape_iff:
  "accepted_shape info =
     (length info = 2 \<and> IsString (arg info 0) \<and> IsObject (arg info 1)
      \<or> length info = 4 \<and> IsArrayBuffer (arg info 0) \<and> IsNumber (arg info 1)
          \<and> IsNumber (arg info 2) \<and> IsObject (arg info 3))"
  by (auto simp: accepted_shape_def arg_def split: list.splits)

lemma cacheInputs_ok:
  "\<forall>i\<in>set is. \<not> isl (GetInputNameAllocated api h i) \<and> \<not> isl (GetInputTypeInfo api h i)
     \<Longrightarrow> \<exists>s'. cacheInputs api h is s = (s', Inr ())"
proof (induction "is" arbitrary: s)
  case Nil
  then show ?case by simp
next
  case (Cons i "is")
  then obtain name t where "GetInputNameAllocated api h i = Inr name"
    "GetInputTypeInfo api h i = Inr t"
    by (cases "GetInputNameAllocated api h i"; cases "GetInputTypeInfo api h i") auto
  with Cons show ?case by simp
qed

lemma cacheOutputs_ok:
  "\<forall>i\<in>set is. \<not> isl (GetOutputNameAllocated api h i) \<and> \<not> isl (GetOutputTypeInfo api h i)
     \<Longrightarrow> \<exists>s'. cacheOutputs api h is s = (s', Inr ())"
proof (induction "is" arbitrary: s)
  case Nil
  then show ?case by simp
next
  case (Cons i "is")
  then obtain name t where "GetOutputNameAllocated api h i = Inr name"
    "GetOutputTypeInfo api h i = Inr t"
    by (cases "GetOutputNameAllocated api h i"; cases "GetOutputTypeInfo api h i") auto
  with Cons show ?case by simp
qed

lemma cachePreferred_succeeds:
  assumes "\<forall>names locs. snd (ParsePreferredOutputLocations api (arg info (length info - 1)) names locs) = None"
    and "\<not> isl (CreateIoBinding api h)"
  shows "\<exists>s'. cachePreferred api info h s = (s', Inr ())"
proof -
  obtain locs where p: "ParsePreferredOutputLocations api (arg info (length info - 1))
      (outputNames s) (preferredOutputLocations s) = (locs, None)"
    using assms(1) by (metis prod.collapse)
  obtain b where b: "CreateIoBinding api h = Inr b"
    using assms(2) by (cases "CreateIoBinding api h") auto
  show ?thesis using p b by (auto simp: cachePreferred_def Let_def)
qed

lemma LoadModel_create_accepts:
  assumes "accepted_shape info" "cooperative api info"
  shows "\<exists>h. LoadModel_create api info = Inr h
     \<and> (\<exists>n. GetInputCount api h = Inr n
            \<and> (\<forall>i<n. \<not> isl (GetInputNameAllocated api h i) \<and> \<not> isl (GetInputTypeInfo api h i)))
     \<and> (\<exists>n. GetOutputCount api h = Inr n
            \<and> (\<forall>i<n. \<not> isl (GetOutputNameAllocated api h i) \<and> \<not> isl (GetOutputTypeInfo api h i)))
     \<and> \<not> isl (CreateIoBinding api h)"
  using assms unfolding accepted_shape_iff cooperative_def LoadModel_create_def
  by (auto simp: Let_def)

lemma LoadModel_succeeds:
  assumes "\<not> initialized s" "\<not> disposed s" "accepted_shape info" "cooperative api info"
  shows "\<exists>s'. LoadModel api info s = (s', Inr JSUndefined)"
proof -
  from LoadModel_create_accepts [OF assms(3,4)] obtain h n m where
    h: "LoadModel_create api info = Inr h"
    and n: "GetInputCount api h = Inr n"
      "\<forall>i<n. \<not> isl (GetInputNameAllocated api h i) \<and> \<not> isl (GetInputTypeInfo api h i)"
    and m: "GetOutputCount api h = Inr m"
      "\<forall>i<m. \<not> isl (GetOutputNameAllocated api h i) \<and> \<not> isl (GetOutputTypeInfo api h i)"
    and b: "\<not> isl (CreateIoBinding api h)"
    by blast
  from assms(4) have p: "\<forall>names locs.
      snd (ParsePreferredOutputLocations api (arg info (length info - 1)) names locs) = None"
    by (auto simp: cooperative_def)
  from n(2) obtain s2 where s2: "cacheInputs api h [0..<n] (s\<lparr>session := Some h\<rparr>) = (s2, Inr ())"
    using cacheInputs_ok [of "[0..<n]" api h] by auto
  from m(2) obtain s3 where s3: "cacheOutputs api h [0..<m] s2 = (s3, Inr ())"
    using cacheOutputs_ok [of "[0..<m]" api h] by auto
  from cachePreferred_succeeds [OF p b] obtain s4 where
    s4: "cachePreferred api info h s3 = (s4, Inr ())" by blast
  have "cacheMetadata api info h (s\<lparr>session := Some h\<rparr>) = (s4, Inr ())"
    by (simp add: cacheMetadata_def n(1) m(1) s2 s3 s4)
  moreover from assms(3) have "length info \<noteq> 0" by (auto simp: accepted_shape_iff)
  ultimately show ?thesis using assms(1,2) h
    by (simp add: LoadModel_def LoadModel_try_def)
qed

lemma LoadModel_rejects:
  assumes "\<not> initialized s" "\<not> disposed s" "\<not> accepted_shape info"
  shows "LoadModel api info s = (s, Inl (NapiTypeError
     (if length info = 0 then ''Expect argument: model file path or buffer.''
      else ''Invalid argument: args has to be either (modelPath, options) or (buffer, byteOffset, byteLength, options).'')))"
  using assms unfolding accepted_shape_iff
  by (auto simp: LoadModel_def LoadModel_try_def LoadModel_create_def Let_def)

lemma demo_cooperative: "cooperative demo_api [JSString ''model.onnx'', demo_record []]"
  by (simp add: cooperative_def demo_api_def arg_def demo_record_def demo_Object_prototype_def)

text \<open>No more types than names are ever cached: a name is pushed before its type.\<close>

lemma cacheInputs_lengths:
  "cacheInputs api h is s = (s', r) \<Longrightarrow> length (inputTypes s) \<le> length (inputNames s)
     \<Longrightarrow> length (inputTypes s') \<le> length (inputNames s')"
proof (induction "is" arbitrary: s)
  case Nil
  then show ?case by auto
next
  case (Cons i "is")
  show ?case
  proof (cases "GetInputNameAllocated api h i")
    case (Inl e)
    with Cons.prems show ?thesis by auto
  next
    case (Inr name)
    note name = this
    show ?thesis
    proof (cases "GetInputTypeInfo api h i")
      case (Inl e)
      with name Cons.prems show ?thesis by auto
    next
      case (Inr t)
      with name Cons.prems
      have "cacheInputs api h is (s\<lparr>inputNames := inputNames s @ [name],
               inputTypes := inputTypes s @ [t]\<rparr>) = (s', r)"
        by simp
      from Cons.IH [OF this] Cons.prems(2) show ?thesis by simp
    qed
  qed
qed

lemma cacheOutputs_lengths:
  "cacheOutputs api h is s = (s', r) \<Longrightarrow> length (outputTypes s) \<le> length (outputNames s)
     \<Longrightarrow> length (outputTypes s') \<le> length (outputNames s')"
proof (induction "is" arbitrary: s)
  case Nil
  then show ?case by auto
next
  case (Cons i "is")
  show ?case
  proof (cases "GetOutputNameAllocated api h i")
    case (Inl e)
    with Cons.prems show ?thesis by auto
  next
    case (Inr name)
    note name = this
    show ?thesis
    proof (cases "GetOutputTypeInfo api h i")
      case (Inl e)
      with name Cons.prems show ?thesis by auto
    next
      case (Inr t)
      with name Cons.prems
      have "cacheOutputs api h is (s\<lparr>outputNames := outputNames s @ [name],
               outputTypes := outputTypes s @ [t]\<rparr>) = (s', r)"
        by simp
      from Cons.IH [OF this] Cons.prems(2) show ?thesis by simp
    qed
  qed
qed

lemma cachePreferred_names:
  "cachePreferred api info h s = (s', r) \<Longrightarrow>
     inputNames s' = inputNames s \<and> inputTypes s' = inputTypes s
     \<and> outputNames s' = outputNames s \<and> outputTypes s' = outputTypes s"
  by (auto simp: cachePreferred_def Let_def split: prod.splits option.splits sum.splits if_splits)

lemma cacheMetadata_lengths:
  assumes "cacheMetadata api info h s = (s', r)" "types_within_names s"
  shows "types_within_names s'"
proof (cases "GetInputCount api h")
  case (Inl e)
  with assms show ?thesis by (simp add: cacheMetadata_def)
next
  case (Inr n)
  note n = this
  obtain s2 r2 where s2: "cacheInputs api h [0..<n] s = (s2, r2)"
    by (cases "cacheInputs api h [0..<n] s")
  from cacheInputs_lengths [OF s2] cacheInputs_unchanged [OF s2] assms(2)
  have t2: "types_within_names s2" by (simp add: types_within_names_def)
  show ?thesis
  proof (cases r2)
    case (Inl e)
    with assms n s2 t2 show ?thesis by (simp add: cacheMetadata_def)
  next
    case (Inr u)
    note r2 = this
    show ?thesis
    proof (cases "GetOutputCount api h")
      case (Inl e)
      with assms n s2 r2 t2 show ?thesis by (simp add: cacheMetadata_def)
    next
      case (Inr m)
      note m = this
      obtain s3 r3 where s3: "cacheOutputs api h [0..<m] s2 = (s3, r3)"
        by (cases "cacheOutputs api h [0..<m] s2")
      from cacheOutputs_lengths [OF s3] cacheOutputs_unchanged [OF s3] t2
      have t3: "types_within_names s3" by (simp add: types_within_names_def)
      show ?thesis
      proof (cases r3)
        case (Inl e)
        with assms n s2 r2 m s3 t3 show ?thesis by (simp add: cacheMetadata_def)
      next
        case (Inr u3)
        with assms n s2 r2 m s3 have "cachePreferred api info h s3 = (s', r)"
          by (simp add: cacheMetadata_def)
        from cachePreferred_names [OF this] t3 show ?thesis
          by (simp add: types_within_names_def)
      qed
    qed
  qed
qed

lemma LoadModel_lengths:
  assumes "LoadModel api info s = (s', r)" "types_within_names s"
  shows "types_within_names s'"
proof (cases "initialized s \<or> disposed s \<or> length info = 0")
  case True
  with assms show ?thesis by (auto simp: LoadModel_def split: if_splits)
next
  case False
  show ?thesis
  proof (cases "LoadModel_create api info")
    case (Inl x)
    with False assms show ?thesis by (auto simp: LoadModel_def LoadModel_try_def)
  next
    case (Inr h)
    obtain s1 r1 where m: "cacheMetadata api info h (s\<lparr>session := Some h\<rparr>) = (s1, r1)"
      by (cases "cacheMetadata api info h (s\<lparr>session := Some h\<rparr>)")
    from assms(2) have "types_within_names (s\<lparr>session := Some h\<rparr>)"
      by (simp add: types_within_names_def)
    from cacheMetadata_lengths [OF m this] have "types_within_names s1" .
    with False assms(1) Inr m show ?thesis
      by (auto simp: LoadModel_def LoadModel_try_def types_within_names_def split: sum.splits)
  qed
qed

subsection \<open>Run\<close>


lemma collectInputs_eq:
  "collectInputs api feed names (n, ns, vs) =
     (case marshalAll (\<lambda>name. NapiValueToOrtValue api (Get feed name)) (filter (Has feed) names) of
        Inl e \<Rightarrow> Inl e
      | Inr ys \<Rightarrow> Inr (n + length ys, ns @ filter (Has feed) names, vs @ ys))"
  by (induction names arbitrary: n ns vs) (auto split: sum.splits)

lemma collectOutputs_eq:
  "collectOutputs api fetch names (n, ns, vs) =
     (case marshalAll (requestedValue api fetch) (filter (Has fetch) names) of
        Inl e \<Rightarrow> Inl e
      | Inr ys \<Rightarrow> Inr (n + length ys, ns @ filter (Has fetch) names, vs @ ys))"
  by (induction names arbitrary: n ns vs)
     (auto simp: requestedValue_def Let_def split: sum.splits)












lemma marshalAll_cong:
  "\<forall>x\<in>set xs. f x = g x \<Longrightarrow> marshalAll f xs = marshalAll g xs"
  by (induction xs) (auto split: sum.splits)

lemma filter_Has_cong:
  "\<forall>n\<in>set names. Has f' n = Has f n \<Longrightarrow> filter (Has f') names = filter (Has f) names"
  by (induction names) auto

lemma collectInputs_cong:
  assumes "\<forall>n\<in>set names. Has f' n = Has f n \<and> Get f' n = Get f n"
  shows "collectInputs api f' names (k, ns, vs) = collectInputs api f names (k, ns, vs)"
proof -
  have 1: "filter (Has f') names = filter (Has f) names"
    using assms by (intro filter_Has_cong) simp
  have 2: "marshalAll (\<lambda>name. NapiValueToOrtValue api (Get f' name)) (filter (Has f) names)
         = marshalAll (\<lambda>name. NapiValueToOrtValue api (Get f name)) (filter (Has f) names)"
    using assms by (intro marshalAll_cong) simp
  show ?thesis by (simp add: collectInputs_eq 1 2 cong: sum.case_cong)
qed

lemma collectOutputs_cong:
  assumes "\<forall>n\<in>set names. Has f' n = Has f n \<and> Get f' n = Get f n"
  shows "collectOutputs api f' names (k, ns, vs) = collectOutputs api f names (k, ns, vs)"
proof -
  have 1: "filter (Has f') names = filter (Has f) names"
    using assms by (intro filter_Has_cong) simp
  have 2: "marshalAll (requestedValue api f') (filter (Has f) names)
         = marshalAll (requestedValue api f) (filter (Has f) names)"
    using assms by (intro marshalAll_cong) (simp add: requestedValue_def)
  show ?thesis by (simp add: collectOutputs_eq 1 2 cong: sum.case_cong)
qed

lemma run_cong:
  assumes "length info' = length info"
    and "IsObject (arg info' 0) = IsObject (arg info 0)"
    and "IsObject (arg info' 1) = IsObject (arg info 1)"
    and "arg info' 2 = arg info 2"
    and "\<forall>n\<in>set (inputNames s). Has (arg info' 0) n = Has (arg info 0) n
                                  \<and> Get (arg info' 0) n = Get (arg info 0) n"
    and "\<forall>n\<in>set (outputNames s). Has (arg info' 1) n = Has (arg info 1) n
                                   \<and> Get (arg info' 1) n = Get (arg info 1) n"
  shows "run api info' s = run api info s"
proof -
  have ro: "runOptionsOf api info' = runOptionsOf api info"
    using assms(1,4) by (simp add: runOptionsOf_def)
  have ci: "collectInputs api (arg info' 0) (inputNames s) (0, [], [])
      = collectInputs api (arg info 0) (inputNames s) (0, [], [])"
    by (rule collectInputs_cong [OF assms(5)])
  have co: "collectOutputs api (arg info' 1) (outputNames s) (0, [], [])
      = collectOutputs api (arg info 1) (outputNames s) (0, [], [])"
    by (rule collectOutputs_cong [OF assms(6)])
  have "Run_try api info' s = Run_try api info s"
    unfolding Run_try_def Let_def ci co ro ..
  with assms(1-4) show ?thesis by (auto simp: run_def)
qed

lemma map_of_filter_keys:
  "k \<in> A \<Longrightarrow> map_of (filter (\<lambda>p. fst p \<in> A) ps) k = map_of ps k"
  by (induction ps) auto

lemma Set_prop_keys: "fst ` set (Set_prop k v ps) = insert k (fst ` set ps)"
  by (induction ps) auto

lemma at_in_set: "at xs i = Inr x \<Longrightarrow> x \<in> set xs"
  by (auto simp: at_def split: if_splits)

lemma setResults_keys:
  "setResults api names vals is result = Inr result' \<Longrightarrow>
     fst ` set result' \<subseteq> fst ` set result \<union> set names"
proof (induction "is" arbitrary: result)
  case Nil
  then show ?case by auto
next
  case (Cons i "is")
  from Cons.prems obtain v jv name where
    "at names i = Inr name"
    "setResults api names vals is (Set_prop name jv result) = Inr result'"
    by (auto split: sum.splits)
  with Cons.IH [of "Set_prop name jv result"] at_in_set [of names i name]
  show ?case by (auto simp: Set_prop_keys)
qed

lemma runDirect_result:
  assumes "runDirect api ro ins outs s = (s', r)"
  shows "s' = s \<and> (\<forall>v. r = Inr v \<longrightarrow>
            (\<exists>result. v = NewObject api result \<and> fst ` set result \<subseteq> set (outputNames s)))"
  using assms
  by (auto simp: runDirect_def split: prod.splits option.splits sum.splits
      dest!: setResults_keys)

lemma runBound_result:
  assumes "runBound api ro n b s = (s', r)"
  shows "(\<exists>b'. s' = s\<lparr>ioBinding := Some b'\<rparr>) \<and> (\<forall>v. r = Inr v \<longrightarrow>
            (\<exists>result. v = NewObject api result \<and> fst ` set result \<subseteq> set (outputNames s)))"
  using assms
  by (auto simp: runBound_def split: option.splits sum.splits if_splits
      dest!: setResults_keys)

lemma runBinding_result:
  assumes "runBinding api ro ins outs s = (s', r)"
  shows "only_binding_updated s s' \<and> (\<forall>v. r = Inr v \<longrightarrow>
            (\<exists>result. v = NewObject api result \<and> fst ` set result \<subseteq> set (outputNames s)))"
proof (cases "length (preferredOutputLocations s) \<noteq> length (outputNames s) \<or> ioBinding s = None")
  case True
  with assms show ?thesis
    by (auto simp: runBinding_def only_binding_updated_def
        split: prod.splits if_splits option.splits)
next
  case False
  then obtain b where b: "ioBinding s = Some b" by auto
  obtain inputIndex inputNames_cstr inputValues outputIndex outputNames_cstr outputValues
    where io: "ins = (inputIndex, inputNames_cstr, inputValues)"
      "outs = (outputIndex, outputNames_cstr, outputValues)"
    by (cases ins, cases outs) auto
  show ?thesis
  proof (cases "bindInputs api inputNames_cstr inputValues [0..<inputIndex] b")
    case (Pair b1 r1)
    show ?thesis
    proof (cases r1)
      case (Inl e)
      with assms False b io Pair show ?thesis
        by (auto simp: runBinding_def only_binding_updated_def)
    next
      case (Inr u)
      note r1 = this
      show ?thesis
      proof (cases "bindOutputs api (preferredOutputLocations s) outputNames_cstr
                      [0..<outputIndex] b1")
        case (Pair b2 r2)
        note p2 = this
        show ?thesis
        proof (cases r2)
          case (Inl e)
          with assms False b io \<open>bindInputs api inputNames_cstr inputValues [0..<inputIndex] b = (b1, r1)\<close>
            r1 p2 show ?thesis
            by (auto simp: runBinding_def only_binding_updated_def)
        next
          case (Inr u2)
          with assms False b io \<open>bindInputs api inputNames_cstr inputValues [0..<inputIndex] b = (b1, r1)\<close>
            r1 p2
          have "runBound api ro outputIndex b2 s = (s', r)"
            by (auto simp: runBinding_def)
          from runBound_result [OF this] b show ?thesis
            by (auto simp: only_binding_updated_def)
        qed
      qed
    qed
  qed
qed

lemma only_binding_updated_refl [simp]: "only_binding_updated s s"
  by (simp add: only_binding_updated_def)

lemma Run_try_result:
  assumes "Run_try api info s = (s', r)"
  shows "only_binding_updated s s' \<and> (\<forall>v. r = Inr v \<longrightarrow>
            (\<exists>result. v = NewObject api result \<and> fst ` set result \<subseteq> set (outputNames s)))"
proof -
  consider (early) "s' = s" "isl r"
    | (direct) ro ins outs where "runDirect api ro ins outs s = (s', r)"
    | (binding) ro ins outs where "runBinding api ro ins outs s = (s', r)"
    using assms by (auto simp: Run_try_def Let_def split: sum.splits if_splits)
  then show ?thesis
  proof cases
    case early
    then show ?thesis by auto
  next
    case direct
    from runDirect_result [OF this] show ?thesis by auto
  next
    case binding
    from runBinding_result [OF this] show ?thesis .
  qed
qed

lemma run_result:
  assumes "run api info s = (s', r)"
  shows "only_binding_updated s s' \<and> (\<forall>v. r = Inr v \<longrightarrow>
            (\<exists>result. v = NewObject api result \<and> fst ` set result \<subseteq> set (outputNames s)))"
proof (cases "\<exists>q. run api info s = (s, Inl q)")
  case True
  with assms show ?thesis by auto
next
  case False
  with assms obtain r0 where t: "Run_try api info s = (s', r0)"
    and r: "r = (case r0 of Inl e \<Rightarrow> Inl (rethrow e) | Inr v \<Rightarrow> Inr v)"
    by (auto simp: run_def split: if_splits prod.splits sum.splits)
  from Run_try_result [OF t] r show ?thesis by (auto split: sum.splits)
qed

lemma binding_invariant_cong:
  "only_binding_updated s s' \<Longrightarrow> binding_invariant s' = binding_invariant s"
proof -
  assume a: "only_binding_updated s s'"
  then have "s' = s\<lparr>ioBinding := ioBinding s'\<rparr>" by (simp add: only_binding_updated_def)
  then have "preferredOutputLocations s' = preferredOutputLocations (s\<lparr>ioBinding := ioBinding s'\<rparr>)"
    by simp
  then have "preferredOutputLocations s' = preferredOutputLocations s" by simp
  with a show ?thesis by (simp add: binding_invariant_def only_binding_updated_def)
qed





subsection \<open>GetMetadata and EndProfiling\<close>

lemma metadataLoop_fold:
  "\<forall>i\<in>set is. i < length names \<and> i < length types \<Longrightarrow>
   metadataLoop api names types is array
     = Inr (fold (\<lambda>i a. a[i := metadataRecord api (names ! i) (types ! i)]) is array)"
  by (induction "is" arbitrary: array) (auto simp: at_def)

lemma fold_update_nth:
  "j < length a \<Longrightarrow>
   fold (\<lambda>i a. a[i := f i]) is a ! j = (if j \<in> set is then f j else a ! j)"
  by (induction "is" arbitrary: a) (auto simp: nth_list_update)

lemma fold_update_length: "length (fold (\<lambda>i a. a[i := f i]) is a) = length a"
  by (induction "is" arbitrary: a) auto

lemma fold_update_all:
  "fold (\<lambda>i a. a[i := f i]) [0..<n] (replicate n x) = map f [0..<n]"
  by (rule nth_equalityI) (simp_all add: fold_update_length fold_update_nth)

lemma metadataLoop_closed:
  assumes "length types \<le> length names"
  shows "metadataLoop api names types [0..<length types] (replicate (length types) JSUndefined)
     = Inr (map (\<lambda>i. metadataRecord api (names ! i) (types ! i)) [0..<length types])"
proof -
  have "\<forall>i\<in>set [0..<length types]. i < length names \<and> i < length types"
    using assms by auto
  from metadataLoop_fold [OF this, where api = api] show ?thesis
    by (simp add: fold_update_all)
qed

lemma GetMetadata_state: "fst (GetMetadata api input s) = s"
  by (simp add: GetMetadata_def Let_def split: sum.splits)

lemma GetMetadata_binding:
  "snd (GetMetadata api input (s\<lparr>ioBinding := b\<rparr>)) = snd (GetMetadata api input s)"
  by (simp add: GetMetadata_def Let_def split: sum.splits)

lemma EndProfiling_state: "fst (EndProfiling api s) = s"
  by (simp add: EndProfiling_def split: sum.splits option.splits)

section \<open>The claims\<close>

subsection \<open>C1: the result record of the direct path\<close>

text \<open>
  C1 says that on the direct path the result record maps each requested output name to the
  value the engine computed for that name, also when the fetch omits an earlier-declared
  output. The loop of lines 221 to 223 stores the \<open>i\<close>-th returned value under
  \<^verbatim>\<open>outputNames_[i]\<close>, the \<open>i\<close>-th declared name, and not under
  \<^verbatim>\<open>outputNames_cstr[i]\<close>, the \<open>i\<close>-th requested name. On the model with outputs
  \<open>y1\<close>, \<open>y2\<close> and the fetch \<open>{y2: null}\<close> the engine is asked for \<open>y2\<close>
  and computes 6, and the record returned is \<open>{y1: 6}\<close>: it has no entry \<open>y2\<close>.
\<close>

theorem Run_keys_result_by_position:
  "outputNames (fst (LoadModel demo_api demo_info new_session)) = [''y1'', ''y2'']
   \<and> preferredOutputLocations (fst (LoadModel demo_api demo_info new_session)) = []
   \<and> Run demo_api 0 () [''x''] [5] [''y2''] [None] = Inr [6]
   \<and> snd (run demo_api [demo_record [(''x'', JSNumber 5)], demo_record [(''y2'', JSNull)]]
             (fst (LoadModel demo_api demo_info new_session)))
       = Inr (demo_record [(''y1'', JSNumber 6)])"
  by (simp add: demo_LoadModel' demo_run_y2) (simp add: demo_loaded_def demo_api_def)

theorem Run_keys_result_by_position_witness:
  "Get (case snd (run demo_api [demo_record [(''x'', JSNumber 5)], demo_record [(''y2'', JSNull)]]
                   (fst (LoadModel demo_api demo_info new_session))) of
          Inl e \<Rightarrow> JSUndefined | Inr result \<Rightarrow> result) ''y2'' = JSUndefined
   \<and> Get (case snd (run demo_api [demo_record [(''x'', JSNumber 5)], demo_record [(''y2'', JSNull)]]
                   (fst (LoadModel demo_api demo_info new_session))) of
          Inl e \<Rightarrow> JSUndefined | Inr result \<Rightarrow> result) ''y1'' = JSNumber 6"
  using Run_keys_result_by_position by (simp add: demo_record_def demo_Object_prototype_def)

subsection \<open>C2: every method on a disposed session\<close>

text \<open>
  C2 says that on a disposed session every method, \<^verbatim>\<open>loadModel\<close> included, fails with
  the message "Session already disposed". \<^verbatim>\<open>LoadModel\<close> tests \<^verbatim>\<open>initialized_\<close>
  before \<^verbatim>\<open>disposed_\<close> (lines 66 and 67), and a disposed session is an initialized one,
  so there it fails with "Model already loaded. Cannot load model multiple times."; the test
  of line 67 is never reached with \<^verbatim>\<open>disposed_\<close> set. The other methods do fail with
  "Session already disposed.", as \<^verbatim>\<open>run\<close> does here.
\<close>

theorem LoadModel_on_disposed_session:
  "initialized (fst (Dispose (fst (LoadModel demo_api demo_info new_session))))
   \<and> disposed (fst (Dispose (fst (LoadModel demo_api demo_info new_session))))
   \<and> snd (LoadModel demo_api demo_info (fst (Dispose (fst (LoadModel demo_api demo_info new_session)))))
       = Inl (NapiError ''Model already loaded. Cannot load model multiple times.'')
   \<and> snd (run demo_api [demo_record [], demo_record []]
            (fst (Dispose (fst (LoadModel demo_api demo_info new_session)))))
       = Inl (NapiError ''Session already disposed.'')"
  by (simp add: demo_LoadModel') (simp add: Dispose_def demo_loaded_def LoadModel_def run_def)

theorem LoadModel_on_disposed_session_witness:
  "snd (LoadModel demo_api demo_info (fst (Dispose (fst (LoadModel demo_api demo_info new_session)))))
     \<noteq> Inl (NapiError ''Session already disposed.'')"
  using LoadModel_on_disposed_session by simp

subsection \<open>C3: a failing loadModel\<close>




subsection \<open>C4: what run passes to the engine\<close>




subsection \<open>C5: loadModel called twice\<close>

text \<open>
  C5: after a successful \<^verbatim>\<open>loadModel\<close> the session is Loaded, and any further
  \<^verbatim>\<open>loadModel\<close> fails with a message that contains "already loaded" and leaves the
  session exactly as it was, so every later call behaves as on the Loaded session.
\<close>

theorem second_LoadModel_rejected:
  assumes "LoadModel api info s = (s', Inr r)"
  shows "initialized s' \<and> \<not> disposed s'
     \<and> LoadModel api' info' s'
         = (s', Inl (NapiError ''Model already loaded. Cannot load model multiple times.''))
     \<and> sublist ''already loaded'' ''Model already loaded. Cannot load model multiple times.''"
  using LoadModel_ok [OF assms] already_loaded_message
  by (simp add: LoadModel_def)

theorem second_LoadModel_rejected_witness:
  "LoadModel demo_api demo_info new_session = (demo_loaded, Inr JSUndefined)
   \<and> LoadModel demo_api demo_info_gpu demo_loaded
       = (demo_loaded, Inl (NapiError ''Model already loaded. Cannot load model multiple times.''))"
  using second_LoadModel_rejected [OF demo_LoadModel', of demo_api demo_info_gpu] demo_LoadModel'
  by simp

subsection \<open>C6: the Fresh state\<close>

text \<open>
  C6: on a Fresh session \<^verbatim>\<open>run\<close>, both metadata accessors, \<^verbatim>\<open>endProfiling\<close> and
  \<^verbatim>\<open>dispose\<close> fail with the message "Session is not initialized" (the literal of the
  source ends with a full stop) and leave the session as it is, while \<^verbatim>\<open>loadModel\<close>
  goes through: with an accepted argument list and an engine that raises nothing it
  succeeds.
\<close>

theorem Fresh_allows_only_LoadModel:
  assumes "\<not> initialized s" and "\<not> disposed s"
  shows "run api info s = (s, Inl (NapiError (''Session is not initialized'' @ ''.'')))
     \<and> GetMetadata api input s = (s, Inl (NapiError (''Session is not initialized'' @ ''.'')))
     \<and> EndProfiling api s = (s, Inl (NapiError (''Session is not initialized'' @ ''.'')))
     \<and> Dispose s = (s, Inl (NapiError (''Session is not initialized'' @ ''.'')))
     \<and> (accepted_shape info' \<and> cooperative api info'
          \<longrightarrow> (\<exists>s'. LoadModel api info' s = (s', Inr JSUndefined)))"
  using assms LoadModel_succeeds [OF assms, of info' api]
  by (simp add: run_def GetMetadata_def EndProfiling_def Dispose_def)

theorem Fresh_allows_only_LoadModel_witness:
  "\<not> initialized (new_session :: demo_session) \<and> \<not> disposed (new_session :: demo_session)
   \<and> accepted_shape demo_info \<and> cooperative demo_api demo_info
   \<and> Dispose (new_session :: demo_session)
       = (new_session, Inl (NapiError ''Session is not initialized.''))
   \<and> (\<exists>s'. LoadModel demo_api demo_info new_session = (s', Inr JSUndefined))"
proof -
  have a: "accepted_shape demo_info" by (simp add: accepted_shape_def demo_info_def demo_record_def)
  have c: "cooperative demo_api demo_info" using demo_cooperative by (simp add: demo_info_def)
  from Fresh_allows_only_LoadModel [OF demo_fresh(1) demo_fresh(2), of demo_api _ _ demo_info] a c
    demo_fresh(1,2)
  show ?thesis by simp
qed

subsection \<open>C7: the I/O binding and the preferred output locations\<close>

text \<open>
  C7 says that "the I/O binding is present iff preferredOutputLocations is non-empty" holds
  after every operation, \<^verbatim>\<open>dispose\<close> included. \<^verbatim>\<open>Dispose\<close> resets the binding
  (line 266) and leaves the table of locations alone: after loading with the location
  \<open>gpu-buffer\<close> and disposing, the binding is gone and the table still has two entries.
\<close>

theorem Dispose_breaks_binding_invariant:
  "snd (Dispose (fst (LoadModel demo_api demo_info_gpu new_session))) = Inr JSUndefined
   \<and> ioBinding (fst (Dispose (fst (LoadModel demo_api demo_info_gpu new_session)))) = None
   \<and> preferredOutputLocations (fst (Dispose (fst (LoadModel demo_api demo_info_gpu new_session))))
       = [4, 4]
   \<and> \<not> binding_invariant (fst (Dispose (fst (LoadModel demo_api demo_info_gpu new_session))))"
  by (simp add: demo_LoadModel_gpu demo_Dispose_bound binding_invariant_def)
     (simp add: demo_bound_def)

text \<open>
  C7 as amended: the invariant holds of a new session and after every successful
  \<^verbatim>\<open>loadModel\<close> on a session without a binding; \<^verbatim>\<open>run\<close>, the metadata accessors and
  \<^verbatim>\<open>endProfiling\<close> keep it as it is; a failing \<^verbatim>\<open>loadModel\<close> leaves the binding
  handle as it was; and a successful \<^verbatim>\<open>dispose\<close> releases the binding and keeps the
  table, so that afterwards the binding is absent whatever the table holds.
\<close>

theorem binding_invariant_until_Dispose:
  "binding_invariant (new_session :: ('s, 'b) InferenceSessionWrap)
   \<and> (ioBinding s = None \<and> LoadModel api info s = (s', Inr r) \<longrightarrow> binding_invariant s')
   \<and> (LoadModel api info s = (s', Inl e) \<longrightarrow> ioBinding s' = ioBinding s)
   \<and> binding_invariant (fst (run api info s)) = binding_invariant s
   \<and> binding_invariant (fst (GetMetadata api input s)) = binding_invariant s
   \<and> binding_invariant (fst (EndProfiling api s)) = binding_invariant s
   \<and> (Dispose s = (s', Inr r) \<longrightarrow>
        ioBinding s' = None \<and> preferredOutputLocations s' = preferredOutputLocations s)"
proof (intro conjI impI)
  show "binding_invariant (new_session :: ('s, 'b) InferenceSessionWrap)"
    by (simp add: binding_invariant_def new_session_def)
next
  assume "ioBinding s = None \<and> LoadModel api info s = (s', Inr r)"
  with LoadModel_ok [of api info s s' r] show "binding_invariant s'"
    by (simp add: binding_invariant_def)
next
  assume "LoadModel api info s = (s', Inl e)"
  from LoadModel_fail [OF this] show "ioBinding s' = ioBinding s" by simp
next
  obtain s1 r1 where "run api info s = (s1, r1)" by (cases "run api info s")
  with run_result [OF this] binding_invariant_cong [of s s1]
  show "binding_invariant (fst (run api info s)) = binding_invariant s" by simp
next
  show "binding_invariant (fst (GetMetadata api input s)) = binding_invariant s"
    by (simp add: GetMetadata_state)
next
  show "binding_invariant (fst (EndProfiling api s)) = binding_invariant s"
    by (simp add: EndProfiling_state)
next
  assume "Dispose s = (s', Inr r)"
  then show "ioBinding s' = None" by (auto simp: Dispose_def split: if_splits)
next
  assume "Dispose s = (s', Inr r)"
  then show "preferredOutputLocations s' = preferredOutputLocations s"
    by (auto simp: Dispose_def split: if_splits)
qed

theorem binding_invariant_until_Dispose_witness:
  "ioBinding (new_session :: demo_session) = None
   \<and> LoadModel demo_api demo_info_gpu new_session = (demo_bound, Inr JSUndefined)
   \<and> binding_invariant demo_bound
   \<and> binding_invariant
       (fst (run demo_api [demo_record [(''x'', JSNumber 5)], demo_record [(''y1'', JSNull)]] demo_bound))"
proof -
  note w = binding_invariant_until_Dispose [where s = "new_session :: demo_session"
      and api = demo_api and info = demo_info_gpu and s' = demo_bound and r = JSUndefined]
  from w demo_fresh(3) demo_LoadModel_gpu have b: "binding_invariant demo_bound" by blast
  note w2 = binding_invariant_until_Dispose [where s = demo_bound and api = demo_api
      and info = "[demo_record [(''x'', JSNumber 5)], demo_record [(''y1'', JSNull)]]"]
  from w2 b have "binding_invariant
       (fst (run demo_api [demo_record [(''x'', JSNumber 5)], demo_record [(''y1'', JSNull)]] demo_bound))"
    by blast
  with b demo_fresh(3) demo_LoadModel_gpu show ?thesis by blast
qed

subsection \<open>C8: the argument lists of loadModel\<close>

text \<open>
  C8: \<^verbatim>\<open>loadModel\<close>, called on a Fresh session (on any other the state is rejected
  first), accepts exactly the two shapes \<open>(string, object)\<close> and
  \<open>(ArrayBuffer, number, number, object)\<close>: any other argument list fails with a type
  error, whatever the engine, and leaves the session as it is; an argument list of one of
  the two shapes is not rejected, and the call succeeds when the engine raises nothing.
\<close>

theorem LoadModel_accepts_two_shapes:
  assumes "\<not> initialized s" and "\<not> disposed s"
  shows "(\<not> accepted_shape info \<longrightarrow> (\<exists>m. LoadModel api info s = (s, Inl (NapiTypeError m))))
     \<and> (accepted_shape info \<and> cooperative api info
          \<longrightarrow> (\<exists>s'. LoadModel api info s = (s', Inr JSUndefined)))"
  using LoadModel_rejects [OF assms, of info api] LoadModel_succeeds [OF assms, of info api]
  by blast

theorem LoadModel_accepts_two_shapes_witness:
  "\<not> initialized (new_session :: demo_session) \<and> \<not> disposed (new_session :: demo_session)
   \<and> \<not> accepted_shape [JSString ''model.onnx'', JSNull]
   \<and> (\<exists>m. LoadModel demo_api [JSString ''model.onnx'', JSNull] (new_session :: demo_session)
             = (new_session, Inl (NapiTypeError m)))
   \<and> accepted_shape demo_info_buffer
   \<and> cooperative demo_api demo_info_buffer
   \<and> (\<exists>s'. LoadModel demo_api demo_info_buffer (new_session :: demo_session)
             = (s', Inr JSUndefined))"
proof -
  have 1: "\<not> accepted_shape [JSString ''model.onnx'', JSNull]"
    by (simp add: accepted_shape_def)
  have 2: "accepted_shape demo_info_buffer"
    by (simp add: accepted_shape_def demo_info_buffer_def demo_record_def)
  have 3: "cooperative demo_api demo_info_buffer"
    by (simp add: cooperative_def demo_api_def arg_def demo_info_buffer_def demo_record_def
        demo_Object_prototype_def)
  from LoadModel_accepts_two_shapes [OF demo_fresh(1) demo_fresh(2), of _ demo_api] 1 2 3
    demo_fresh(1,2)
  show ?thesis by blast
qed

subsection \<open>C9: getMetadata is a pure read\<close>

text \<open>
  C9: on a Loaded session \<^verbatim>\<open>getMetadata\<close> leaves the session as it is; a repeated call,
  also after a call with the other selector, after a \<^verbatim>\<open>run\<close> or after
  \<^verbatim>\<open>endProfiling\<close>, returns the same records; and the records are those built from the
  cached names and types, one per cached type (no more types than names are ever cached,
  see \<open>LoadModel_lengths\<close>).
\<close>

theorem GetMetadata_pure:
  assumes "initialized s" and "\<not> disposed s"
  shows "fst (GetMetadata api input s) = s
     \<and> GetMetadata api input (fst (GetMetadata api input' s)) = GetMetadata api input s
     \<and> snd (GetMetadata api input (fst (run api info s))) = snd (GetMetadata api input s)
     \<and> snd (GetMetadata api input (fst (EndProfiling api s))) = snd (GetMetadata api input s)
     \<and> (length (inputTypes s) \<le> length (inputNames s) \<longrightarrow>
          snd (GetMetadata api True s)
            = Inr (NewArray api (map (\<lambda>i. metadataRecord api (inputNames s ! i) (inputTypes s ! i))
                             [0..<length (inputTypes s)])))
     \<and> (length (outputTypes s) \<le> length (outputNames s) \<longrightarrow>
          snd (GetMetadata api False s)
            = Inr (NewArray api (map (\<lambda>i. metadataRecord api (outputNames s ! i) (outputTypes s ! i))
                             [0..<length (outputTypes s)])))"
proof (intro conjI impI)
  show "fst (GetMetadata api input s) = s" by (rule GetMetadata_state)
next
  show "GetMetadata api input (fst (GetMetadata api input' s)) = GetMetadata api input s"
    by (simp add: GetMetadata_state)
next
  obtain s1 r1 where r: "run api info s = (s1, r1)" by (cases "run api info s")
  from run_result [OF r] have "s1 = s\<lparr>ioBinding := ioBinding s1\<rparr>"
    by (simp add: only_binding_updated_def)
  then have "snd (GetMetadata api input s1) = snd (GetMetadata api input s)"
    using GetMetadata_binding [where input = input and s = s and b = "ioBinding s1"] by simp
  with r show "snd (GetMetadata api input (fst (run api info s))) = snd (GetMetadata api input s)"
    by simp
next
  show "snd (GetMetadata api input (fst (EndProfiling api s))) = snd (GetMetadata api input s)"
    by (simp add: EndProfiling_state)
next
  assume "length (inputTypes s) \<le> length (inputNames s)"
  from metadataLoop_closed [OF this, where api = api] assms
  show "snd (GetMetadata api True s)
            = Inr (NewArray api (map (\<lambda>i. metadataRecord api (inputNames s ! i) (inputTypes s ! i))
                             [0..<length (inputTypes s)]))"
    by (simp add: GetMetadata_def Let_def)
next
  assume "length (outputTypes s) \<le> length (outputNames s)"
  from metadataLoop_closed [OF this, where api = api] assms
  show "snd (GetMetadata api False s)
            = Inr (NewArray api (map (\<lambda>i. metadataRecord api (outputNames s ! i) (outputTypes s ! i))
                             [0..<length (outputTypes s)]))"
    by (simp add: GetMetadata_def Let_def)
qed

theorem GetMetadata_pure_witness:
  "initialized demo_loaded \<and> \<not> disposed demo_loaded
   \<and> length (inputTypes demo_loaded) \<le> length (inputNames demo_loaded)
   \<and> GetMetadata demo_api True (fst (GetMetadata demo_api False demo_loaded)) = GetMetadata demo_api True demo_loaded
   \<and> snd (GetMetadata demo_api True demo_loaded) = Inr (NewArray demo_api [metadataRecord demo_api ''x'' demo_type])"
proof -
  have l: "initialized demo_loaded" "\<not> disposed demo_loaded"
    "length (inputTypes demo_loaded) \<le> length (inputNames demo_loaded)"
    by (simp_all add: demo_loaded_def)
  have n: "inputNames demo_loaded = [''x'']" "inputTypes demo_loaded = [demo_type]"
    by (simp_all add: demo_loaded_def)
  from GetMetadata_pure [OF l(1) l(2), where input = True and input' = False
      and api = demo_api and info = "[]"] l
  show ?thesis by (simp add: n)
qed

subsection \<open>C10: undeclared names in feed and fetch\<close>

text \<open>
  C10: entries of the feed and of the fetch whose key is not a declared input name
  (output name) are ignored: \<^verbatim>\<open>run\<close> with them is \<^verbatim>\<open>run\<close> without them, for every
  engine, so they reach no engine call and raise nothing; and the keys of a returned result
  record are declared output names.
\<close>

theorem run_ignores_undeclared_names:
  "run api (JSObject c (filter (\<lambda>p. fst p \<in> set (inputNames s)) feed) proto
            # JSObject c' (filter (\<lambda>p. fst p \<in> set (outputNames s)) fetch) proto' # rest) s
     = run api (JSObject c feed proto # JSObject c' fetch proto' # rest) s
   \<and> (run api info s = (s', Inr v) \<longrightarrow>
        (\<exists>result. v = NewObject api result \<and> fst ` set result \<subseteq> set (outputNames s)))"
proof (intro conjI impI)
  show "run api (JSObject c (filter (\<lambda>p. fst p \<in> set (inputNames s)) feed) proto
            # JSObject c' (filter (\<lambda>p. fst p \<in> set (outputNames s)) fetch) proto' # rest) s
     = run api (JSObject c feed proto # JSObject c' fetch proto' # rest) s"
    by (intro run_cong) (auto simp: arg_def map_of_filter_keys)
next
  assume "run api info s = (s', Inr v)"
  from run_result [OF this]
  show "\<exists>result. v = NewObject api result \<and> fst ` set result \<subseteq> set (outputNames s)" by simp
qed

theorem run_ignores_undeclared_names_witness:
  "run demo_api [demo_record [(''zz'', JSNull), (''x'', JSNumber 5)],
                 demo_record [(''y1'', JSNull), (''other'', JSNull)]] demo_loaded
     = (demo_loaded, Inr (demo_record [(''y1'', JSNumber 5)]))
   \<and> run demo_api [demo_record [(''x'', JSNumber 5)], demo_record [(''y1'', JSNull)]] demo_loaded
     = (demo_loaded, Inr (demo_record [(''y1'', JSNumber 5)]))
   \<and> fst ` set [(''y1'', JSNumber (5 :: 64 word))] \<subseteq> set (outputNames demo_loaded)"
proof -
  have r: "run demo_api [demo_record [(''zz'', JSNull), (''x'', JSNumber 5)],
                 demo_record [(''y1'', JSNull), (''other'', JSNull)]] demo_loaded
     = (demo_loaded, Inr (demo_record [(''y1'', JSNumber 5)]))"
    by (simp add: run_def Run_try_def runOptionsOf_def runDirect_def demo_api_def
        demo_loaded_def arg_def demo_record_def demo_Object_prototype_def NewObject_def at_def)
  note w = run_ignores_undeclared_names [where api = demo_api and s = demo_loaded
      and c = PlainObject and c' = PlainObject
      and proto = demo_Object_prototype and proto' = demo_Object_prototype
      and feed = "[(''zz'', JSNull), (''x'', JSNumber 5)]"
      and fetch = "[(''y1'', JSNull), (''other'', JSNull)]" and rest = "[]"
      and info = "[demo_record [(''zz'', JSNull), (''x'', JSNumber 5)],
                   demo_record [(''y1'', JSNull), (''other'', JSNull)]]"
      and s' = demo_loaded and v = "demo_record [(''y1'', JSNumber 5)]"]
  have f: "filter (\<lambda>p. fst p \<in> set (inputNames demo_loaded)) [(''zz'', JSNull), (''x'', JSNumber 5)]
        = [(''x'', JSNumber 5)]"
    "filter (\<lambda>p. fst p \<in> set (outputNames demo_loaded)) [(''y1'', JSNull), (''other'', JSNull)]
        = [(''y1'', JSNull)]"
    by (simp_all add: demo_loaded_def)
  have o: "fst ` set [(''y1'', JSNumber (5 :: 64 word))] \<subseteq> set (outputNames demo_loaded)"
    by (simp add: demo_loaded_def)
  from w r o show ?thesis unfolding f by (simp add: demo_record_def)
qed

end
